theory Spec2Isabelle
  imports Complex_Main "HOL-Library.AList"
begin

section \<open>pyENSDF core: a shallow embedding of \<^verbatim>\<open>src/ensdf/core.py\<close>\<close>

text \<open>
  The development follows \<^verbatim>\<open>core.py\<close> class by class. Python strings are
  \<^typ>\<open>string\<close> (one \<^typ>\<open>char\<close> per code point below 256; ENSDF card images are
  ASCII), every exception is a value of \<open>error\<close> on the left of a sum, a \<^verbatim>\<open>dict\<close> is
  an association list that keeps Python's insertion order, and object references
  (a level held by a gamma, a gamma held by a level) are positions in the lists of the
  dataset that owns the objects. Python floats are idealised as \<^typ>\<open>real\<close>.
  The \<^verbatim>\<open>print\<close> calls of the exception handlers, which re-raise, are not modelled.
\<close>

subsection \<open>Exceptions\<close>

datatype error =
    IndexError
  | ValueError
  | TypeError
  | ZeroDivisionError
  | KeyError
  | NotImplementedError
  | InvalidQuantity

text \<open>Sequencing of computations that may raise.\<close>

definition ebind :: "error + 'a \<Rightarrow> ('a \<Rightarrow> error + 'b) \<Rightarrow> error + 'b" where
  "ebind m f = (case m of Inl e \<Rightarrow> Inl e | Inr x \<Rightarrow> f x)"

subsection \<open>Python string operations used by the parser\<close>

text \<open>\<^verbatim>\<open>str.isspace\<close> on one character, for code points below 256.\<close>

definition isspace :: "char \<Rightarrow> bool" where
  "isspace c =
     (let n = (of_char c :: nat)
      in (9 \<le> n \<and> n \<le> 13) \<or> (28 \<le> n \<and> n \<le> 32) \<or> n = 133 \<or> n = 160)"

text \<open>\<^verbatim>\<open>s.strip()\<close>\<close>

definition strip :: "string \<Rightarrow> string" where
  "strip s = rev (dropWhile isspace (rev (dropWhile isspace s)))"

text \<open>\<^verbatim>\<open>s[a:b]\<close> and \<^verbatim>\<open>s[a:]\<close> for literal bounds \<open>0 \<le> a \<le> b\<close>; a slice never raises.\<close>

definition slice :: "nat \<Rightarrow> nat \<Rightarrow> 'a list \<Rightarrow> 'a list" where
  "slice a b s = take (b - a) (drop a s)"

text \<open>\<^verbatim>\<open>s[i]\<close> on a string: a one-character string, or IndexError.\<close>

definition getitem :: "string \<Rightarrow> nat \<Rightarrow> error + string" where
  "getitem s i = (if i < length s then Inr [s ! i] else Inl IndexError)"

text \<open>\<^verbatim>\<open>xs[0]\<close> on a sequence.\<close>

definition first_item :: "'a list \<Rightarrow> error + 'a" where
  "first_item xs = (case xs of [] \<Rightarrow> Inl IndexError | x # _ \<Rightarrow> Inr x)"

text \<open>
  \<^verbatim>\<open>c.lower()\<close> and \<^verbatim>\<open>c.upper()\<close>, applied characterwise. The parser only compares
  the results with ASCII letters and blanks, and no character below 256 outside
  \<open>A-Z\<close>, \<open>a-z\<close> is mapped to an ASCII letter by either, so only the ASCII letters
  are moved.
\<close>

definition lower_char :: "char \<Rightarrow> char" where
  "lower_char c =
     (let n = (of_char c :: nat) in if 65 \<le> n \<and> n \<le> 90 then char_of (n + 32) else c)"

definition upper_char :: "char \<Rightarrow> char" where
  "upper_char c =
     (let n = (of_char c :: nat) in if 97 \<le> n \<and> n \<le> 122 then char_of (n - 32) else c)"

definition lower :: "string \<Rightarrow> string" where
  "lower s = map lower_char s"

definition upper :: "string \<Rightarrow> string" where
  "upper s = map upper_char s"

text \<open>
  \<^verbatim>\<open>s.split(sep, maxsplit=n)\<close> for a one-character separator: at most \<open>n\<close> cuts, at
  the leftmost separators, empty pieces kept. \<^verbatim>\<open>s.split(sep)\<close> cuts at every separator.
\<close>

fun splitn :: "nat \<Rightarrow> char \<Rightarrow> string \<Rightarrow> string list" where
  "splitn 0 c s = [s]"
| "splitn (Suc n) c s =
     (if c \<in> set s
      then takeWhile (\<lambda>x. x \<noteq> c) s # splitn n c (tl (dropWhile (\<lambda>x. x \<noteq> c) s))
      else [s])"

definition split :: "char \<Rightarrow> string \<Rightarrow> string list" where
  "split c s = splitn (length s) c s"

text \<open>\<^verbatim>\<open>sub in s\<close> for strings.\<close>

fun contains :: "string \<Rightarrow> string \<Rightarrow> bool" where
  "contains sub [] = (sub = [])"
| "contains sub (x # xs) = (if take (length sub) (x # xs) = sub then True else contains sub xs)"

subsection \<open>The property dictionary and \<^verbatim>\<open>Record.load_prop\<close>\<close>

text \<open>
  A \<^verbatim>\<open>dict\<close> of strings: \<^const>\<open>AList.update\<close> overwrites an existing key in place and
  appends a new one, which is the order \<^verbatim>\<open>dict.items()\<close> yields.
\<close>

type_synonym pydict = "(string \<times> string) list"

definition setitem :: "string \<Rightarrow> string \<Rightarrow> pydict \<Rightarrow> pydict" where
  "setitem k v d = AList.update k v d"

text \<open>
  One pass of the body of the inner loop of \<^verbatim>\<open>load_prop\<close> on one entry. The result
  carries the dictionary and whether the branch executed \<^verbatim>\<open>return\<close>. In the
  abbreviation branch the source unpacks into \<^verbatim>\<open>quant, quant, value\<close>: the name
  \<^verbatim>\<open>quant\<close> is bound to the first piece and then rebound to the second.
\<close>

definition abbreviations :: "string list" where
  "abbreviations = [''GT'', ''LT'', ''GE'', ''LE'', ''AP'', ''CA'', ''SY'']"

definition load_entry :: "string \<Rightarrow> pydict \<Rightarrow> error + (bool \<times> pydict)" where
  "load_entry entry0 prop =
     (let entry = strip entry0 in
      if entry = [] then Inr (False, prop)
      else if CHR ''='' \<in> set entry then
        (case splitn 1 (CHR ''='') entry of
           [quant, v] \<Rightarrow> Inr (False, setitem (strip quant) (strip v) prop)
         | _ \<Rightarrow> Inl ValueError)
      else if CHR ''<'' \<in> set entry then
        (case splitn 1 (CHR ''<'') entry of
           [quant, v] \<Rightarrow> Inr (True, setitem (strip quant) (''<'' @ strip v) prop)
         | _ \<Rightarrow> Inl ValueError)
      else if CHR ''>'' \<in> set entry then
        (case splitn 1 (CHR ''>'') entry of
           [quant, v] \<Rightarrow> Inr (True, setitem (strip quant) (''>'' @ strip v) prop)
         | _ \<Rightarrow> Inl ValueError)
      else if list_ex (\<lambda>abbr. contains ('' '' @ abbr @ '' '') entry) abbreviations then
        (case splitn 2 (CHR '' '') entry of
           [quant1, quant, v] \<Rightarrow> Inr (True, setitem (strip quant) (strip v @ '' '' @ quant) prop)
         | _ \<Rightarrow> Inl ValueError)
      else if last entry = CHR ''?'' then Inr (True, setitem (butlast entry) ''?'' prop)
      else Inl ValueError)"

text \<open>The loop over the entries of one line, and the loop over the lines.\<close>

fun load_entries :: "string list \<Rightarrow> pydict \<Rightarrow> error + (bool \<times> pydict)" where
  "load_entries [] prop = Inr (False, prop)"
| "load_entries (entry # entries) prop =
     (case load_entry entry prop of
        Inl e \<Rightarrow> Inl e
      | Inr (True, prop') \<Rightarrow> Inr (True, prop')
      | Inr (False, prop') \<Rightarrow> load_entries entries prop')"

fun load_prop :: "string list \<Rightarrow> pydict \<Rightarrow> error + pydict" where
  "load_prop [] prop = Inr prop"
| "load_prop (line # lines) prop =
     (case load_entries (split (CHR ''$'') (drop 9 line)) prop of
        Inl e \<Rightarrow> Inl e
      | Inr (True, prop') \<Rightarrow> Inr prop'
      | Inr (False, prop') \<Rightarrow> load_prop lines prop')"

subsection \<open>External collaborators\<close>

text \<open>
  \<^verbatim>\<open>core.py\<close> imports \<^verbatim>\<open>Quantity\<close> and \<^verbatim>\<open>az_from_nucid\<close> from \<^verbatim>\<open>util.py\<close> and reads
  the atomic mass constant from \<^verbatim>\<open>scipy.constants\<close>; none of them is in the source
  tree. They are parameters of the model. Of a \<^verbatim>\<open>Quantity\<close> object the core reads the
  attributes \<^verbatim>\<open>val\<close> and \<^verbatim>\<open>offset\<close> only; either may be absent. The constructor is
  called as \<^verbatim>\<open>Quantity(val, pm)\<close>, \<^verbatim>\<open>Quantity(val)\<close> and
  \<^verbatim>\<open>Quantity(val, has_unit=False)\<close>: the second argument is optional.
\<close>

record quantity =
  val :: "real option"
  offset :: "string option"

record externals =
  Quantity :: "string \<Rightarrow> string option \<Rightarrow> bool \<Rightarrow> error + quantity"
  az_from_nucid :: "string \<Rightarrow> error + (int \<times> int option)"
  amu :: real

subsection \<open>Record classes\<close>

text \<open>
  A \<^verbatim>\<open>dataset\<close> back-reference is the identity of the Dataset object, a number chosen
  by the caller of the constructor. Attribute names that several classes share carry
  the class as a prefix here (\<open>lvl_energy\<close>, \<open>gamma_energy\<close>, ...), and the
  attribute \<^verbatim>\<open>prop\<close> is the field \<open>props\<close>.
\<close>

type_synonym dataset_ref = nat

record general_comment_record =
  gc_dataset :: dataset_ref
  comment :: "string list"

definition GeneralCommentRecord_init :: "dataset_ref \<Rightarrow> string list \<Rightarrow> general_comment_record" where
  "GeneralCommentRecord_init ds c = \<lparr>gc_dataset = ds, comment = c\<rparr>"

text \<open>\<^verbatim>\<open>class Record\<close>: \<^verbatim>\<open>comments\<close> and \<^verbatim>\<open>xref\<close> may be \<^verbatim>\<open>None\<close> (ParentRecord).\<close>

record base_record =
  props :: pydict
  dataset :: dataset_ref
  comments :: "general_comment_record list"
  xref :: "string list option"

definition Record_init ::
  "dataset_ref \<Rightarrow> string list list option \<Rightarrow> string list option \<Rightarrow> base_record" where
  "Record_init ds cmts xr =
     \<lparr>props = [], dataset = ds,
      comments = (case cmts of None \<Rightarrow> [] | Some cs \<Rightarrow> map (GeneralCommentRecord_init ds) cs),
      xref = xr\<rparr>"

text \<open>
  The fixed fields of a record's first line are assigned one after the other;
  \<^verbatim>\<open>line[a:b].strip()\<close> cannot raise, \<^verbatim>\<open>line[i].strip()\<close> raises IndexError on a
  short line. \<open>assign\<close> runs a block of such assignments in order.
\<close>

definition sl :: "nat \<Rightarrow> nat \<Rightarrow> string \<Rightarrow> error + string" where
  "sl a b line = Inr (strip (slice a b line))"

definition ix :: "nat \<Rightarrow> string \<Rightarrow> error + string" where
  "ix i line = ebind (getitem line i) (\<lambda>c. Inr (strip c))"

fun assign :: "(string \<times> (error + string)) list \<Rightarrow> pydict \<Rightarrow> error + pydict" where
  "assign [] d = Inr d"
| "assign ((k, v) # kvs) d = ebind v (\<lambda>x. assign kvs (setitem k x d))"

text \<open>\<^verbatim>\<open>self.prop[k]\<close> as an expression.\<close>

definition dict_get :: "pydict \<Rightarrow> string \<Rightarrow> error + string" where
  "dict_get d k = (case map_of d k of None \<Rightarrow> Inl KeyError | Some v \<Rightarrow> Inr v)"

text \<open>
  \<^verbatim>\<open>ParentRecord.__init__(self, dataset, record)\<close>. \<open>record\<close> is any Python sequence
  of strings: \<^verbatim>\<open>record[0]\<close> is its first item, \<^verbatim>\<open>record[1:]\<close> the rest.
\<close>

definition ParentRecord_init :: "dataset_ref \<Rightarrow> string list \<Rightarrow> error + base_record" where
  "ParentRecord_init ds record =
     (let r = Record_init ds None None in
      ebind (first_item record) (\<lambda>l.
      ebind (assign
               [(''E'', sl 9 19 l), (''DE'', sl 19 21 l), (''J'', sl 21 39 l),
                (''T'', sl 39 49 l), (''DT'', sl 49 55 l), (''QP'', sl 64 74 l),
                (''DQP'', sl 74 76 l), (''ION'', sl 76 80 l)] (props r)) (\<lambda>p.
      ebind (load_prop (drop 1 record) p) (\<lambda>p.
      Inr (r\<lparr>props := p\<rparr>)))))"

text \<open>
  \<^verbatim>\<open>class LevelRecord(Record)\<close>. \<^verbatim>\<open>decays\<close> and \<^verbatim>\<open>populating\<close> hold gamma records:
  positions in the \<^verbatim>\<open>records\<close> list of the dataset. \<^verbatim>\<open>metastable\<close> is kept as the
  truth value of the Python expression.
\<close>

record level_record = base_record +
  decays :: "nat list"
  populating :: "nat list"
  attrs :: pydict
  lvl_energy :: quantity
  ang_mom :: string
  half_life :: quantity
  lvl_questionable :: bool
  lvl_expected :: bool
  metastable :: bool
  spec_strength :: quantity

definition LevelRecord_init ::
  "externals \<Rightarrow> dataset_ref \<Rightarrow> string list \<Rightarrow> string list list \<Rightarrow> string list
     \<Rightarrow> error + level_record" where
  "LevelRecord_init ext ds record cmts xr =
     (let r = Record_init ds (Some cmts) (Some xr) in
      ebind (first_item record) (\<lambda>l.
      ebind (assign
               [(''E'', sl 9 19 l), (''DE'', sl 19 21 l), (''J'', sl 21 39 l),
                (''T'', sl 39 49 l), (''DT'', sl 49 55 l), (''L'', sl 55 64 l),
                (''S'', sl 64 74 l), (''DS'', sl 74 76 l), (''C'', ix 76 l),
                (''MS'', sl 77 79 l), (''Q'', ix 79 l)] (props r)) (\<lambda>p.
      ebind (load_prop (drop 1 record) p) (\<lambda>p.
      ebind (dict_get p ''E'') (\<lambda>e. ebind (dict_get p ''DE'') (\<lambda>de.
      ebind (Quantity ext e (Some de) True) (\<lambda>energy.
      ebind (dict_get p ''J'') (\<lambda>j.
      ebind (dict_get p ''T'') (\<lambda>t. ebind (dict_get p ''DT'') (\<lambda>dt.
      ebind (Quantity ext t (Some dt) True) (\<lambda>hl.
      ebind (dict_get p ''Q'') (\<lambda>q.
      ebind (dict_get p ''MS'') (\<lambda>ms.
      ebind (dict_get p ''S'') (\<lambda>s. ebind (dict_get p ''DS'') (\<lambda>dsv.
      ebind (Quantity ext s (Some dsv) True) (\<lambda>ss.
      Inr \<lparr>props = p, dataset = dataset r, comments = comments r, xref = xref r,
           decays = [], populating = [], attrs = [],
           lvl_energy = energy, ang_mom = j, half_life = hl,
           lvl_questionable = (q = ''?''), lvl_expected = (q = ''S''),
           metastable = (if ms = [] then False else take 1 ms = ''M''),
           spec_strength = ss\<rparr>))))))))))))))))"

text \<open>\<^verbatim>\<open>class DecayRecord(Record)\<close>: \<^verbatim>\<open>dest_level\<close> is a position in \<^verbatim>\<open>levels\<close>.\<close>

record decay_record = base_record +
  dest_level :: "nat option"

definition DecayRecord_init ::
  "dataset_ref \<Rightarrow> string list list \<Rightarrow> string list \<Rightarrow> nat option \<Rightarrow> decay_record" where
  "DecayRecord_init ds cmts xr dl =
     (let r = Record_init ds (Some cmts) (Some xr) in
      \<lparr>props = props r, dataset = dataset r, comments = comments r, xref = xref r,
       dest_level = dl\<rparr>)"

record beta_record = decay_record +
  beta_energy :: quantity
  beta_questionable :: bool
  beta_expected :: bool

definition BetaRecord_init ::
  "externals \<Rightarrow> dataset_ref \<Rightarrow> string list \<Rightarrow> string list list \<Rightarrow> string list
     \<Rightarrow> nat option \<Rightarrow> error + beta_record" where
  "BetaRecord_init ext ds record cmts xr dl =
     (let r = DecayRecord_init ds cmts xr dl in
      ebind (first_item record) (\<lambda>l.
      ebind (assign
               [(''E'', sl 9 19 l), (''DE'', sl 19 21 l), (''IB'', sl 21 29 l),
                (''DIB'', sl 29 31 l), (''LOGFT'', sl 41 49 l), (''DFT'', sl 49 55 l),
                (''C'', ix 76 l), (''UN'', sl 77 79 l), (''Q'', ix 79 l)] (props r)) (\<lambda>p.
      ebind (load_prop (drop 1 record) p) (\<lambda>p.
      ebind (dict_get p ''E'') (\<lambda>e. ebind (dict_get p ''DE'') (\<lambda>de.
      ebind (Quantity ext e (Some de) True) (\<lambda>energy.
      ebind (dict_get p ''Q'') (\<lambda>q.
      Inr \<lparr>props = p, dataset = dataset r, comments = comments r, xref = xref r,
           dest_level = dest_level r,
           beta_energy = energy, beta_questionable = (q = ''?''),
           beta_expected = (q = ''S'')\<rparr>))))))))"

definition ECRecord_init ::
  "dataset_ref \<Rightarrow> string list \<Rightarrow> string list list \<Rightarrow> string list
     \<Rightarrow> nat option \<Rightarrow> error + decay_record" where
  "ECRecord_init ds record cmts xr dl =
     (let r = DecayRecord_init ds cmts xr dl in
      ebind (first_item record) (\<lambda>l.
      ebind (assign
               [(''E'', sl 9 19 l), (''DE'', sl 19 21 l), (''IB'', sl 21 29 l),
                (''DIB'', sl 29 31 l), (''IE'', sl 31 39 l), (''DIE'', sl 39 41 l),
                (''LOGFT'', sl 41 49 l), (''DFT'', sl 49 55 l), (''TI'', sl 64 74 l),
                (''DTI'', sl 74 76 l), (''C'', ix 76 l), (''UN'', sl 77 79 l),
                (''Q'', ix 79 l)] (props r)) (\<lambda>p.
      ebind (load_prop (drop 1 record) p) (\<lambda>p.
      Inr (r\<lparr>props := p\<rparr>)))))"

definition AlphaRecord_init ::
  "dataset_ref \<Rightarrow> string list \<Rightarrow> string list list \<Rightarrow> string list
     \<Rightarrow> nat option \<Rightarrow> error + decay_record" where
  "AlphaRecord_init ds record cmts xr dl =
     (let r = DecayRecord_init ds cmts xr dl in
      ebind (first_item record) (\<lambda>l.
      ebind (assign
               [(''E'', sl 9 19 l), (''DE'', sl 19 21 l), (''IA'', sl 21 29 l),
                (''DIA'', sl 29 31 l), (''HF'', sl 31 39 l), (''DHF'', sl 39 41 l),
                (''C'', ix 76 l), (''Q'', ix 79 l)] (props r)) (\<lambda>p.
      ebind (load_prop (drop 1 record) p) (\<lambda>p.
      Inr (r\<lparr>props := p\<rparr>)))))"

record particle_record = decay_record +
  prompt_emission :: bool
  delayed_emission :: bool

definition ParticleRecord_init ::
  "dataset_ref \<Rightarrow> string list \<Rightarrow> string list list \<Rightarrow> string list
     \<Rightarrow> nat option \<Rightarrow> error + particle_record" where
  "ParticleRecord_init ds record cmts xr dl =
     (let r = DecayRecord_init ds cmts xr dl in
      ebind (first_item record) (\<lambda>l.
      ebind (assign
               [(''D'', getitem l 7), (''Particle'', getitem l 8),
                (''E'', sl 9 19 l), (''DE'', sl 19 21 l), (''IP'', sl 21 29 l),
                (''DIP'', sl 29 31 l), (''EI'', sl 31 39 l), (''T'', sl 39 49 l),
                (''DT'', sl 49 55 l), (''L'', sl 55 64 l), (''C'', ix 76 l),
                (''COIN'', ix 78 l), (''Q'', ix 79 l)] (props r)) (\<lambda>p.
      ebind (load_prop (drop 1 record) p) (\<lambda>p.
      ebind (dict_get p ''D'') (\<lambda>d.
      Inr \<lparr>props = p, dataset = dataset r, comments = comments r, xref = xref r,
           dest_level = dest_level r,
           prompt_emission = (d = '' ''), delayed_emission = (d = ''D'')\<rparr>)))))"

text \<open>\<^verbatim>\<open>class GammaRecord(DecayRecord)\<close>: \<^verbatim>\<open>orig_level\<close> is a position in \<^verbatim>\<open>levels\<close>.\<close>

record gamma_record = decay_record +
  orig_level :: "nat option"
  gamma_energy :: quantity
  rel_intensity :: quantity
  multipolarity :: string
  mixing_ratio :: quantity
  conversion_coeff :: quantity
  rel_tot_trans_intensity :: quantity
  gamma_questionable :: bool
  gamma_expected :: bool
  attr :: "(string \<times> quantity) list"

text \<open>
  The flat classes. \<^verbatim>\<open>QValueRecord.__init__\<close> receives \<^verbatim>\<open>dataset\<close> and assigns five
  attributes; its instances are modelled as the table of the attributes they have,
  so that which attributes exist is a property of the value.
\<close>

datatype pyvalue = PyStr string | PyTuple string string

type_synonym qvalue_record = "(string \<times> pyvalue) list"

definition QValueRecord_init :: "dataset_ref \<Rightarrow> string \<Rightarrow> qvalue_record" where
  "QValueRecord_init ds line =
     [(''q_beta_minus'', PyTuple (strip (slice 9 19 line)) (strip (slice 19 21 line))),
      (''neutron_separation'', PyTuple (strip (slice 21 29 line)) (strip (slice 29 31 line))),
      (''proton_separation'', PyTuple (strip (slice 31 39 line)) (strip (slice 39 41 line))),
      (''alpha_decay'', PyTuple (strip (slice 41 49 line)) (strip (slice 49 55 line))),
      (''q_ref'', PyStr (strip (slice 55 80 line)))]"

text \<open>\<^verbatim>\<open>getattr(obj, name)\<close> on such a table; \<open>None\<close> is AttributeError.\<close>

definition getattr :: "qvalue_record \<Rightarrow> string \<Rightarrow> pyvalue option" where
  "getattr obj name = map_of obj name"

record cross_reference_record =
  xr_dataset :: dataset_ref
  dssym :: string
  dsid :: string

definition CrossReferenceRecord_init ::
  "dataset_ref \<Rightarrow> string \<Rightarrow> error + cross_reference_record" where
  "CrossReferenceRecord_init ds line =
     ebind (getitem line 8) (\<lambda>c8.
     Inr \<lparr>xr_dataset = ds, dssym = c8, dsid = strip (slice 9 39 line)\<rparr>)"

record reference_record =
  ref_props :: pydict
  ref_dataset :: dataset_ref

definition ReferenceRecord_init :: "dataset_ref \<Rightarrow> string \<Rightarrow> reference_record" where
  "ReferenceRecord_init ds line =
     \<lparr>ref_props =
        setitem ''REFERENCE'' (strip (slice 17 80 line))
          (setitem ''KEYNUM'' (strip (slice 9 17 line))
            (setitem ''MASS'' (strip (slice 0 3 line)) [])),
      ref_dataset = ds\<rparr>"

subsection \<open>The Dataset object\<close>

text \<open>
  \<^verbatim>\<open>Dataset.records\<close> holds the objects \<^verbatim>\<open>_add_record\<close> builds, one class per
  constructor. The attributes \<^verbatim>\<open>ensdf\<close> and \<^verbatim>\<open>date\<close> (a \<^verbatim>\<open>datetime.strptime\<close> of
  columns 74-80 of the header, \<^verbatim>\<open>None\<close> when it fails) are left out: nothing in the
  parser reads them. \<^verbatim>\<open>Dataset.comments\<close> is the field \<open>ds_comments\<close>.
\<close>

datatype any_record =
    BetaRecord beta_record
  | ECRecord decay_record
  | AlphaRecord decay_record
  | ParticleRecord particle_record
  | GammaRecord gamma_record

record dataset_state =
  header :: string
  raw :: "string list"
  nucid :: string
  dataset_id :: string
  dataset_ref :: string
  publication :: string
  records :: "any_record list"
  levels :: "level_record list"
  history :: pydict
  qrecords :: "qvalue_record list"
  ds_comments :: "string list"
  parents :: "base_record list"
  references :: "reference_record list"
  cross_references :: "cross_reference_record list"

subsection \<open>\<^verbatim>\<open>GammaRecord\<close>: construction and destination level\<close>

text \<open>\<^verbatim>\<open>LevelRecord.add_decay\<close>\<close>

definition add_decay :: "nat \<Rightarrow> level_record \<Rightarrow> level_record" where
  "add_decay decay lvl = lvl\<lparr>decays := decays lvl @ [decay]\<rparr>"

text \<open>
  The loop that fills \<^verbatim>\<open>self.attr\<close> from \<^verbatim>\<open>self.prop.items()\<close>, in dictionary order.
\<close>

fun load_attr :: "externals \<Rightarrow> pydict \<Rightarrow> error + (string \<times> quantity) list" where
  "load_attr ext [] = Inr []"
| "load_attr ext ((k, v) # kvs) =
     (if slice 0 2 k = ''BE'' \<or> slice 0 2 k = ''BM''
      then ebind (Quantity ext v None False) (\<lambda>q.
           ebind (load_attr ext kvs) (\<lambda>rest. Inr ((k, q) # rest)))
      else load_attr ext kvs)"

text \<open>
  Line 435 of the source:
  \<^verbatim>\<open>energy_i = (energy_gamma * (1 + 2* (.001 * energy_gamma) / (mass * amu)))\<close>.
  A float division by zero raises.
\<close>

definition energy_i :: "real \<Rightarrow> int \<Rightarrow> real \<Rightarrow> error + real" where
  "energy_i energy_gamma mass amu_c =
     (if real_of_int mass * amu_c = 0 then Inl ZeroDivisionError
      else Inr (energy_gamma * (1 + 2 * (0.001 * energy_gamma) / (real_of_int mass * amu_c))))"

text \<open>
  The first half of \<^verbatim>\<open>_determine_dest_level\<close>, up to the \<^verbatim>\<open>try\<close>: \<open>Inr None\<close> when
  the method returns early, \<open>Inr (Some d)\<close> when \<^verbatim>\<open>dest_energy\<close> is bound to \<open>d\<close>
  (which is the \<^verbatim>\<open>val\<close> of a Quantity, possibly absent, in the \<^verbatim>\<open>FL\<close> branch).
  Arithmetic on an absent value is a TypeError.
\<close>

definition dest_energy ::
  "externals \<Rightarrow> dataset_state \<Rightarrow> gamma_record \<Rightarrow> error + real option option" where
  "dest_energy ext ds g =
     (case map_of (props g) ''FL'' of
        Some fl \<Rightarrow>
          if fl = ''?'' then Inr None
          else ebind (Quantity ext fl None True) (\<lambda>q. Inr (Some (val q)))
      | None \<Rightarrow>
          (case orig_level g of
             Some i \<Rightarrow>
               ebind (az_from_nucid ext (nucid ds)) (\<lambda>(mass, z).
               (case val (gamma_energy g) of
                  None \<Rightarrow> Inl TypeError
                | Some energy_gamma \<Rightarrow>
                    ebind (energy_i energy_gamma mass (amu ext)) (\<lambda>ei.
                    (case val (lvl_energy (levels ds ! i)) of
                       None \<Rightarrow> Inl TypeError
                     | Some e_orig \<Rightarrow> Inr (Some (Some (e_orig - ei)))))))
           | None \<Rightarrow> Inr None))"

text \<open>
  \<^verbatim>\<open>min(xs, key=f)\<close>: the key of every item is computed, in order; the first item
  with the least key wins; an empty \<open>xs\<close> is a ValueError.
\<close>

fun min_loop :: "('a \<Rightarrow> error + real) \<Rightarrow> 'a \<times> real \<Rightarrow> 'a list \<Rightarrow> error + 'a" where
  "min_loop key (m, mv) [] = Inr m"
| "min_loop key (m, mv) (x # xs) =
     ebind (key x) (\<lambda>v. min_loop key (if v < mv then (x, v) else (m, mv)) xs)"

definition py_min :: "('a \<Rightarrow> error + real) \<Rightarrow> 'a list \<Rightarrow> error + 'a" where
  "py_min key xs =
     (case xs of
        [] \<Rightarrow> Inl ValueError
      | x # xs' \<Rightarrow> ebind (key x) (\<lambda>v. min_loop key (x, v) xs'))"

text \<open>\<^verbatim>\<open>abs(a - b)\<close> on values that may be absent.\<close>

definition abs_diff :: "real option \<Rightarrow> real option \<Rightarrow> error + real" where
  "abs_diff a b =
     (case a of None \<Rightarrow> Inl TypeError
      | Some x \<Rightarrow> (case b of None \<Rightarrow> Inl TypeError | Some y \<Rightarrow> Inr \<bar>x - y\<bar>))"

text \<open>
  The list comprehension of line 441: the levels of the dataset, as positions, whose
  energy offset equals the offset of the gamma energy.
\<close>

definition candidates :: "dataset_state \<Rightarrow> gamma_record \<Rightarrow> nat list" where
  "candidates ds g =
     filter (\<lambda>i. offset (lvl_energy (levels ds ! i)) = offset (gamma_energy g))
       [0..<length (levels ds)]"

text \<open>
  \<^verbatim>\<open>_determine_dest_level\<close>. \<open>this\<close> is the position the gamma takes in
  \<^verbatim>\<open>records\<close>. The \<^verbatim>\<open>try\<close> catches ValueError only.
\<close>

definition determine_dest_level ::
  "externals \<Rightarrow> nat \<Rightarrow> dataset_state \<Rightarrow> gamma_record \<Rightarrow> error + (gamma_record \<times> dataset_state)" where
  "determine_dest_level ext this ds g =
     ebind (dest_energy ext ds g) (\<lambda>est.
     (case est of
        None \<Rightarrow> Inr (g, ds)
      | Some d \<Rightarrow>
          (case py_min (\<lambda>i. abs_diff (val (lvl_energy (levels ds ! i))) d) (candidates ds g) of
             Inl e \<Rightarrow> if e = ValueError then Inr (g, ds) else Inl e
           | Inr i \<Rightarrow>
               Inr (g\<lparr>dest_level := Some i\<rparr>,
                    ds\<lparr>levels := (levels ds)
                         [i := (levels ds ! i)\<lparr>populating := populating (levels ds ! i) @ [this]\<rparr>]\<rparr>))))"

text \<open>
  \<^verbatim>\<open>GammaRecord.__init__\<close>. It is called by \<^verbatim>\<open>_add_record\<close> only, which appends the
  new object to \<^verbatim>\<open>records\<close> right after: the object is known by the position
  \<open>length (records ds)\<close>. \<open>orig\<close> is the current level of the parser, a position in
  \<^verbatim>\<open>levels\<close>. \<open>GammaRecord_fields\<close> is the constructor up to line 421: the gamma is
  added to the decays of its level first, then the fields are read. The last
  statement of the constructor calls \<^verbatim>\<open>_determine_dest_level\<close>.
\<close>

definition GammaRecord_fields ::
  "externals \<Rightarrow> dataset_ref \<Rightarrow> dataset_state \<Rightarrow> string list \<Rightarrow> string list list \<Rightarrow> string list
     \<Rightarrow> nat option \<Rightarrow> error + (gamma_record \<times> dataset_state)" where
  "GammaRecord_fields ext me ds record cmts xr orig =
     (let r = DecayRecord_init me cmts xr None;
          this = length (records ds);
          ds1 = (case orig of
                   None \<Rightarrow> ds
                 | Some i \<Rightarrow> ds\<lparr>levels := (levels ds)[i := add_decay this (levels ds ! i)]\<rparr>) in
      ebind (first_item record) (\<lambda>l.
      ebind (assign
               [(''E'', sl 9 19 l), (''DE'', sl 19 21 l), (''RI'', sl 21 29 l),
                (''DRI'', sl 29 31 l), (''M'', sl 31 41 l), (''MR'', sl 41 49 l),
                (''DMR'', sl 49 55 l), (''CC'', sl 55 62 l), (''DCC'', sl 62 64 l),
                (''TI'', sl 64 74 l), (''DTI'', sl 74 76 l), (''C'', ix 76 l),
                (''COIN'', ix 78 l), (''Q'', ix 79 l)] (props r)) (\<lambda>p.
      ebind (load_prop (drop 1 record) p) (\<lambda>p.
      ebind (dict_get p ''E'') (\<lambda>e. ebind (dict_get p ''DE'') (\<lambda>de.
      ebind (Quantity ext e (Some de) True) (\<lambda>energy.
      ebind (dict_get p ''RI'') (\<lambda>ri. ebind (dict_get p ''DRI'') (\<lambda>dri.
      ebind (Quantity ext ri (Some dri) True) (\<lambda>rel_int.
      ebind (dict_get p ''M'') (\<lambda>m.
      ebind (dict_get p ''MR'') (\<lambda>mr. ebind (dict_get p ''DMR'') (\<lambda>dmr.
      ebind (Quantity ext mr (Some dmr) True) (\<lambda>mix.
      ebind (dict_get p ''CC'') (\<lambda>cc. ebind (dict_get p ''DCC'') (\<lambda>dcc.
      ebind (Quantity ext cc (Some dcc) True) (\<lambda>conv.
      ebind (dict_get p ''TI'') (\<lambda>ti. ebind (dict_get p ''DTI'') (\<lambda>dti.
      ebind (Quantity ext ti (Some dti) True) (\<lambda>tot.
      ebind (dict_get p ''Q'') (\<lambda>q.
      ebind (load_attr ext p) (\<lambda>a.
      Inr (\<lparr>props = p, dataset = dataset r, comments = comments r, xref = xref r,
            dest_level = dest_level r, orig_level = orig,
            gamma_energy = energy, rel_intensity = rel_int, multipolarity = m,
            mixing_ratio = mix, conversion_coeff = conv, rel_tot_trans_intensity = tot,
            gamma_questionable = (q = ''?''), gamma_expected = (q = ''S''),
            attr = a\<rparr>, ds1)))))))))))))))))))))))"

definition GammaRecord_init ::
  "externals \<Rightarrow> dataset_ref \<Rightarrow> dataset_state \<Rightarrow> string list \<Rightarrow> string list list \<Rightarrow> string list
     \<Rightarrow> nat option \<Rightarrow> error + (gamma_record \<times> dataset_state)" where
  "GammaRecord_init ext me ds record cmts xr orig =
     ebind (GammaRecord_fields ext me ds record cmts xr orig) (\<lambda>(g, ds1).
     determine_dest_level ext (length (records ds)) ds1 g)"

subsection \<open>\<^verbatim>\<open>get_record_type\<close>, \<^verbatim>\<open>_add_record\<close> and \<^verbatim>\<open>_add_level\<close>\<close>

datatype record_class =
    CrossReferenceRecord_class
  | QValueRecord_class
  | LevelRecord_class
  | BetaRecord_class
  | ECRecord_class
  | AlphaRecord_class
  | GammaRecord_class
  | ParticleRecord_class

definition get_record_type :: "string list \<Rightarrow> error + record_class" where
  "get_record_type record =
     ebind (first_item record) (\<lambda>l.
     ebind (getitem l 7) (\<lambda>c7.
       if c7 = ''X'' then Inr CrossReferenceRecord_class
       else if c7 = ''Q'' then Inr QValueRecord_class
       else if c7 = ''L'' then Inr LevelRecord_class
       else if c7 = ''B'' then Inr BetaRecord_class
       else if c7 = ''E'' then Inr ECRecord_class
       else if c7 = ''A'' then Inr AlphaRecord_class
       else if c7 = ''G'' then Inr GammaRecord_class
       else if c7 \<in> set ['' '', ''D''] then
         ebind (getitem l 8) (\<lambda>c8.
           if c8 \<in> set [''P'', ''A'', ''N''] then Inr ParticleRecord_class
           else Inl NotImplementedError)
       else Inl NotImplementedError))"

text \<open>
  \<^verbatim>\<open>_add_record\<close> calls the class with five arguments after \<^verbatim>\<open>self\<close>. The
  constructors of CrossReferenceRecord and QValueRecord take two and that of
  LevelRecord four: the call is a TypeError.
\<close>

definition add_record ::
  "externals \<Rightarrow> dataset_ref \<Rightarrow> dataset_state \<Rightarrow> string list \<Rightarrow> string list list \<Rightarrow> string list
     \<Rightarrow> nat option \<Rightarrow> error + dataset_state" where
  "add_record ext me ds record cmts xr level =
     ebind (get_record_type record) (\<lambda>rec_type.
     ebind (case rec_type of
              BetaRecord_class \<Rightarrow>
                ebind (BetaRecord_init ext me record cmts xr level) (\<lambda>r. Inr (BetaRecord r, ds))
            | ECRecord_class \<Rightarrow>
                ebind (ECRecord_init me record cmts xr level) (\<lambda>r. Inr (ECRecord r, ds))
            | AlphaRecord_class \<Rightarrow>
                ebind (AlphaRecord_init me record cmts xr level) (\<lambda>r. Inr (AlphaRecord r, ds))
            | ParticleRecord_class \<Rightarrow>
                ebind (ParticleRecord_init me record cmts xr level) (\<lambda>r. Inr (ParticleRecord r, ds))
            | GammaRecord_class \<Rightarrow>
                ebind (GammaRecord_init ext me ds record cmts xr level)
                  (\<lambda>(g, ds'). Inr (GammaRecord g, ds'))
            | CrossReferenceRecord_class \<Rightarrow> Inl TypeError
            | QValueRecord_class \<Rightarrow> Inl TypeError
            | LevelRecord_class \<Rightarrow> Inl TypeError) (\<lambda>(rec, ds').
     Inr (ds'\<lparr>records := records ds' @ [rec]\<rparr>)))"

text \<open>\<^verbatim>\<open>_add_level\<close> returns the new level: its position in \<^verbatim>\<open>levels\<close>.\<close>

definition add_level ::
  "externals \<Rightarrow> dataset_ref \<Rightarrow> dataset_state \<Rightarrow> string list \<Rightarrow> string list list \<Rightarrow> string list
     \<Rightarrow> error + (nat \<times> dataset_state)" where
  "add_level ext me ds record cmts xr =
     ebind (LevelRecord_init ext me record cmts xr) (\<lambda>lvl.
     Inr (length (levels ds), ds\<lparr>levels := levels ds @ [lvl]\<rparr>))"

subsection \<open>\<^verbatim>\<open>Dataset._parse_dataset\<close>\<close>

text \<open>
  The local variables of the method, with the Dataset object: the state of the loop
  over the lines.
\<close>

record parser_state =
  loc_comments :: "string list list"
  loc_record :: "string list"
  loc_xref :: "string list"
  loc_level :: "nat option"
  loc_history :: string
  loc_header :: bool
  self_ds :: dataset_state

text \<open>
  \<^verbatim>\<open>line[7].lower() in "bagel" or (line[7] in " D" and line[8] in "PAN")\<close>, with
  Python's short-circuit evaluation: \<^verbatim>\<open>line[8]\<close> is read only when it is needed.
\<close>

definition record_signature :: "string \<Rightarrow> error + bool" where
  "record_signature line =
     ebind (getitem line 7) (\<lambda>c7.
       if lower c7 \<in> set [''b'', ''a'', ''g'', ''e'', ''l''] then Inr True
       else if c7 \<in> set ['' '', ''D''] then
         ebind (getitem line 8) (\<lambda>c8. Inr (c8 \<in> set [''P'', ''A'', ''N'']))
       else Inr False)"

text \<open>
  The header branch of the loop body (lines 111-129). A ParentRecord is built from
  \<^verbatim>\<open>line\<close>, a string: as a sequence, a string is the sequence of its one-character
  strings.
\<close>

definition header_line :: "dataset_ref \<Rightarrow> string \<Rightarrow> parser_state \<Rightarrow> error + parser_state" where
  "header_line me line st =
     (let ds = self_ds st in
      ebind (getitem line 6) (\<lambda>c6.
        if upper c6 \<in> set [''C'', ''D'', ''T'']
        then Inr (st\<lparr>self_ds := ds\<lparr>ds_comments := ds_comments ds @ [line]\<rparr>\<rparr>)
        else
          ebind (record_signature line) (\<lambda>sig.
          ebind (getitem line 7) (\<lambda>c7.
            if sig then Inr (st\<lparr>loc_header := False\<rparr>)
            else if c7 = ''X'' then
              ebind (CrossReferenceRecord_init me line) (\<lambda>r.
              Inr (st\<lparr>self_ds := ds\<lparr>cross_references := cross_references ds @ [r]\<rparr>\<rparr>))
            else if c7 = ''P'' then
              ebind (ParentRecord_init me (map (\<lambda>c. [c]) line)) (\<lambda>r.
              Inr (st\<lparr>self_ds := ds\<lparr>parents := parents ds @ [r]\<rparr>\<rparr>))
            else if c7 = ''R'' then
              Inr (st\<lparr>self_ds := ds\<lparr>references := references ds @ [ReferenceRecord_init me line]\<rparr>\<rparr>)
            else if upper c7 = ''Q'' then
              Inr (st\<lparr>self_ds := ds\<lparr>qrecords := qrecords ds @ [QValueRecord_init me line]\<rparr>\<rparr>)
            else if upper c7 = ''H'' then
              Inr (st\<lparr>loc_history := loc_history st @ slice 9 80 line @ '' ''\<rparr>)
            else Inr st))))"

text \<open>
  Closing the pending record (lines 137-141 and 172-176): nothing when \<^verbatim>\<open>record\<close> is
  empty.
\<close>

definition close_record :: "externals \<Rightarrow> dataset_ref \<Rightarrow> parser_state \<Rightarrow> error + parser_state" where
  "close_record ext me st =
     (if loc_record st = [] then Inr st
      else
        ebind (first_item (loc_record st)) (\<lambda>l.
        ebind (getitem l 7) (\<lambda>c7.
          if c7 = ''L'' then
            ebind (add_level ext me (self_ds st) (loc_record st) (loc_comments st) (loc_xref st))
              (\<lambda>(lvl, ds). Inr (st\<lparr>loc_level := Some lvl, self_ds := ds\<rparr>))
          else
            ebind (add_record ext me (self_ds st) (loc_record st) (loc_comments st) (loc_xref st)
                     (loc_level st))
              (\<lambda>ds. Inr (st\<lparr>self_ds := ds\<rparr>)))))"

text \<open>
  The body branch (lines 133-156). The conditions of the \<^verbatim>\<open>if\<close>/\<^verbatim>\<open>elif\<close> chain, in
  the order of the source, name the branch taken; \<open>body_line\<close> then runs the branch.
\<close>

datatype line_class =
    RecordStart
  | XrefContinuation
  | PlainContinuation
  | CommentStart
  | CommentContinuation
  | BrokenRecord

definition classify_body :: "string \<Rightarrow> error + line_class" where
  "classify_body line =
     ebind (record_signature line) (\<lambda>sig.
       if sig \<and> slice 5 7 line = ''  '' then Inr RecordStart
       else if slice 5 7 line = ''X '' then Inr XrefContinuation
       else
         ebind (getitem line 6) (\<lambda>c6.
           if c6 = '' '' then Inr PlainContinuation
           else if lower (slice 5 7 line) \<in> set ['' c'', '' d'', '' t''] then Inr CommentStart
           else if lower c6 \<in> set [''c'', ''d'', ''t''] then Inr CommentContinuation
           else Inr BrokenRecord))"

definition body_line ::
  "externals \<Rightarrow> dataset_ref \<Rightarrow> string \<Rightarrow> parser_state \<Rightarrow> error + parser_state" where
  "body_line ext me line st =
     ebind (classify_body line) (\<lambda>c.
     (case c of
        RecordStart \<Rightarrow>
          ebind (close_record ext me st) (\<lambda>st'.
          Inr (st'\<lparr>loc_comments := [], loc_record := [line], loc_xref := []\<rparr>))
      | XrefContinuation \<Rightarrow> Inr (st\<lparr>loc_xref := loc_xref st @ [line]\<rparr>)
      | PlainContinuation \<Rightarrow> Inr (st\<lparr>loc_record := loc_record st @ [line]\<rparr>)
      | CommentStart \<Rightarrow> Inr (st\<lparr>loc_comments := loc_comments st @ [[line]]\<rparr>)
      | CommentContinuation \<Rightarrow>
          (if loc_comments st = [] then Inl IndexError
           else Inr (st\<lparr>loc_comments :=
                        butlast (loc_comments st) @ [last (loc_comments st) @ [line]]\<rparr>))
      | BrokenRecord \<Rightarrow> Inr (st\<lparr>loc_record := loc_record st @ [line]\<rparr>)))"

text \<open>One iteration of the loop, and the loop.\<close>

definition parse_line ::
  "externals \<Rightarrow> dataset_ref \<Rightarrow> string \<Rightarrow> parser_state \<Rightarrow> error + parser_state" where
  "parse_line ext me line st =
     ebind (if loc_header st then header_line me line st else Inr st) (\<lambda>st'.
     if loc_header st' then Inr st' else body_line ext me line st')"

fun parse_lines ::
  "externals \<Rightarrow> dataset_ref \<Rightarrow> string list \<Rightarrow> parser_state \<Rightarrow> error + parser_state" where
  "parse_lines ext me [] st = Inr st"
| "parse_lines ext me (line # ls) st =
     ebind (parse_line ext me line st) (\<lambda>st'. parse_lines ext me ls st')"

text \<open>
  The loop over \<^verbatim>\<open>history.split("$")[:-1]\<close> (lines 181-187): unpacking
  \<^verbatim>\<open>entry.split("=", maxsplit=1)\<close> into two names raises ValueError when there is no
  \<^verbatim>\<open>=\<close>, and the handler passes.
\<close>

fun parse_history :: "string list \<Rightarrow> pydict \<Rightarrow> pydict" where
  "parse_history [] h = h"
| "parse_history (entry # entries) h =
     (case splitn 1 (CHR ''='') entry of
        [k, v] \<Rightarrow> parse_history entries (setitem (strip k) (strip v) h)
      | _ \<Rightarrow> parse_history entries h)"

text \<open>\<^verbatim>\<open>_parse_dataset\<close>: the loop runs over \<^verbatim>\<open>self.raw[:-1]\<close>.\<close>

definition initial_locals :: "dataset_state \<Rightarrow> parser_state" where
  "initial_locals ds =
     \<lparr>loc_comments = [], loc_record = [], loc_xref = [], loc_level = None,
      loc_history = [], loc_header = True, self_ds = ds\<rparr>"

definition parse_dataset :: "externals \<Rightarrow> dataset_ref \<Rightarrow> dataset_state \<Rightarrow> error + dataset_state" where
  "parse_dataset ext me ds =
     ebind (parse_lines ext me (butlast (raw ds)) (initial_locals ds)) (\<lambda>st.
     ebind (close_record ext me st) (\<lambda>st'.
     Inr ((self_ds st')\<lparr>history :=
            parse_history (butlast (split (CHR ''$'') (loc_history st')))
              (history (self_ds st'))\<rparr>)))"

text \<open>
  \<^verbatim>\<open>Dataset.__init__\<close>: \<^verbatim>\<open>self.header, *self.raw = dataset_plain.split("\n")\<close>, the
  fixed columns of the header, the empty collections, then \<^verbatim>\<open>_parse_dataset\<close>.
  \<open>me\<close> is the identity of the new object.
\<close>

definition new_dataset :: "string \<Rightarrow> string list \<Rightarrow> dataset_state" where
  "new_dataset h r =
     \<lparr>header = h, raw = r,
      nucid = strip (slice 0 5 h), dataset_id = strip (slice 9 39 h),
      dataset_ref = strip (slice 39 65 h), publication = strip (slice 65 74 h),
      records = [], levels = [], history = [], qrecords = [], ds_comments = [],
      parents = [], references = [], cross_references = []\<rparr>"

definition Dataset_init :: "externals \<Rightarrow> dataset_ref \<Rightarrow> string \<Rightarrow> error + dataset_state" where
  "Dataset_init ext me dataset_plain =
     (case split (CHR 0x0A) dataset_plain of
        [] \<Rightarrow> Inl ValueError
      | h # r \<Rightarrow> parse_dataset ext me (new_dataset h r))"

subsection \<open>Stand-ins for the external collaborators, for worked examples\<close>

text \<open>
  Modelled from the spec: \<^verbatim>\<open>Quantity\<close> of \<^verbatim>\<open>util.py\<close>, which is not in the source
  tree. Section 4.1 of the specification: surrounding whitespace is stripped; an
  empty value string has an absent value; a value whose last character is a letter
  records that letter as the offset tag and reads the numeric prefix (as in
  \<^verbatim>\<open>1332+X\<close>); a value that is not numeric is a parse failure. Only unsigned decimal
  numerals are read here, and the qualifier codes of section 4.1 are not: the
  examples below use blank fields and plain numerals. The uncertainty and the unit
  flag do not influence \<^verbatim>\<open>val\<close> and \<^verbatim>\<open>offset\<close>.
\<close>

definition is_digit :: "char \<Rightarrow> bool" where
  "is_digit c = (let n = (of_char c :: nat) in 48 \<le> n \<and> n \<le> 57)"

definition is_letter :: "char \<Rightarrow> bool" where
  "is_letter c =
     (let n = (of_char c :: nat) in (65 \<le> n \<and> n \<le> 90) \<or> (97 \<le> n \<and> n \<le> 122))"

definition nat_of_digits :: "string \<Rightarrow> nat" where
  "nat_of_digits s = foldl (\<lambda>n c. 10 * n + (of_char c - 48)) 0 s"

definition parse_number :: "string \<Rightarrow> real option" where
  "parse_number s =
     (let ip = takeWhile is_digit s; rest = dropWhile is_digit s in
      if ip = [] then None
      else if rest = [] then Some (real (nat_of_digits ip))
      else if take 1 rest = ''.'' \<and> list_all is_digit (drop 1 rest)
      then Some (real (nat_of_digits (ip @ drop 1 rest)) / 10 ^ length (drop 1 rest))
      else None)"

definition spec_Quantity :: "string \<Rightarrow> string option \<Rightarrow> bool \<Rightarrow> error + quantity" where
  "spec_Quantity v pm has_unit =
     (let s = strip v in
      if s = [] then Inr \<lparr>val = None, offset = None\<rparr>
      else if is_letter (last s) then
        (case parse_number (if take 1 (rev (butlast s)) = ''+'' then butlast (butlast s) else butlast s) of
           None \<Rightarrow> Inl InvalidQuantity
         | Some x \<Rightarrow> Inr \<lparr>val = Some x, offset = Some [last s]\<rparr>)
      else
        (case parse_number s of
           None \<Rightarrow> Inl InvalidQuantity
         | Some x \<Rightarrow> Inr \<lparr>val = Some x, offset = None\<rparr>))"

text \<open>
  Modelled from the spec: \<^verbatim>\<open>az_from_nucid\<close> of \<^verbatim>\<open>util.py\<close>, which is not in the source
  tree. The core uses the first component only, the mass number parsed from the
  nuclide id (section 4.5): the leading digits of the id. The proton count is left
  absent.
\<close>

definition spec_az_from_nucid :: "string \<Rightarrow> error + (int \<times> int option)" where
  "spec_az_from_nucid n =
     (let ds = takeWhile is_digit (strip n) in
      if ds = [] then Inl ValueError else Inr (int (nat_of_digits ds), None))"

text \<open>
  The atomic mass constant energy equivalent in MeV is a number of
  \<^verbatim>\<open>scipy.constants\<close>; the CODATA 2018 value stands for it in the examples.
\<close>

definition spec_externals :: externals where
  "spec_externals =
     \<lparr>Quantity = spec_Quantity, az_from_nucid = spec_az_from_nucid, amu = 931.49410242\<rparr>"

text \<open>\<^verbatim>\<open>s.ljust(n)\<close>: an ENSDF card image is a line padded with blanks to 80 columns.\<close>

definition ljust :: "nat \<Rightarrow> string \<Rightarrow> string" where
  "ljust n s = s @ replicate (n - length s) (CHR '' '')"

text \<open>\<^verbatim>\<open>"\n".join(lines) + "\n"\<close>: a dataset text from its card images.\<close>

definition dataset_text :: "string list \<Rightarrow> string" where
  "dataset_text ls = concat (map (\<lambda>l. ljust 80 l @ [CHR 0x0A]) ls)"

subsection \<open>Objects for worked examples\<close>

text \<open>
  A level and a gamma as the constructors leave them when every field but the energy
  is blank, and a dataset with given levels.
\<close>

definition blank_quantity :: quantity where
  "blank_quantity = \<lparr>val = None, offset = None\<rparr>"

definition example_level :: "real option \<Rightarrow> string option \<Rightarrow> level_record" where
  "example_level e off =
     \<lparr>props = [], dataset = 0, comments = [], xref = Some [],
      decays = [], populating = [], attrs = [],
      lvl_energy = \<lparr>val = e, offset = off\<rparr>, ang_mom = [], half_life = blank_quantity,
      lvl_questionable = False, lvl_expected = False, metastable = False,
      spec_strength = blank_quantity\<rparr>"

definition example_gamma ::
  "pydict \<Rightarrow> nat option \<Rightarrow> real option \<Rightarrow> string option \<Rightarrow> gamma_record" where
  "example_gamma p orig e off =
     \<lparr>props = p, dataset = 0, comments = [], xref = Some [],
      dest_level = None, orig_level = orig,
      gamma_energy = \<lparr>val = e, offset = off\<rparr>, rel_intensity = blank_quantity,
      multipolarity = [], mixing_ratio = blank_quantity, conversion_coeff = blank_quantity,
      rel_tot_trans_intensity = blank_quantity,
      gamma_questionable = False, gamma_expected = False, attr = []\<rparr>"

definition example_dataset :: "string \<Rightarrow> level_record list \<Rightarrow> dataset_state" where
  "example_dataset h ls = (new_dataset (ljust 80 h) [])\<lparr>levels := ls\<rparr>"

text \<open>
  What the worked examples observe of a parsed dataset: of each level its energy and
  its two link lists, of each record, when it is a gamma, its energy and its two
  levels.
\<close>

definition level_view :: "level_record \<Rightarrow> real option \<times> nat list \<times> nat list" where
  "level_view l = (val (lvl_energy l), decays l, populating l)"

definition gamma_view :: "any_record \<Rightarrow> (real option \<times> nat option \<times> nat option) option" where
  "gamma_view r =
     (case r of
        GammaRecord g \<Rightarrow> Some (val (gamma_energy g), orig_level g, dest_level g)
      | _ \<Rightarrow> None)"

definition level_graph ::
  "dataset_state \<Rightarrow>
     (real option \<times> nat list \<times> nat list) list \<times> (real option \<times> nat option \<times> nat option) option list" where
  "level_graph ds = (map level_view (levels ds), map gamma_view (records ds))"

subsection \<open>The history mapping in the words of the specification\<close>

text \<open>
  The history buffer is cut at every \<^verbatim>\<open>$\<close>; the last piece is dropped, whatever it
  holds; every other piece that contains \<^verbatim>\<open>=\<close> maps the text before its first
  \<^verbatim>\<open>=\<close> to the text after it, both trimmed; a piece without \<^verbatim>\<open>=\<close> is skipped.
  A history line is a line that reaches the \<^verbatim>\<open>H\<close> branch of the header chain.
\<close>

definition history_entry :: "string \<Rightarrow> (string \<times> string) option" where
  "history_entry seg =
     (if CHR ''='' \<in> set seg
      then Some (strip (takeWhile (\<lambda>c. c \<noteq> CHR ''='') seg),
                 strip (drop 1 (dropWhile (\<lambda>c. c \<noteq> CHR ''='') seg)))
      else None)"

definition add_history_entry :: "pydict \<Rightarrow> string \<Rightarrow> pydict" where
  "add_history_entry h seg =
     (case history_entry seg of None \<Rightarrow> h | Some (k, v) \<Rightarrow> setitem k v h)"

definition history_of_buffer :: "string \<Rightarrow> pydict" where
  "history_of_buffer buf = foldl add_history_entry [] (butlast (split (CHR ''$'') buf))"

definition is_history_line :: "string \<Rightarrow> bool" where
  "is_history_line l =
     (7 < length l \<and> upper [l ! 6] \<notin> set [''C'', ''D'', ''T''] \<and>
      (l ! 7 = CHR ''H'' \<or> l ! 7 = CHR ''h''))"

subsection \<open>Datasets that differ in \<^verbatim>\<open>raw\<close> only\<close>



section \<open>Verification\<close>

subsection \<open>Basic facts\<close>

lemma getitem_Inr: "i < length s \<Longrightarrow> getitem s i = Inr [s ! i]"
  by (simp add: getitem_def)

lemma load_prop_chars: "load_prop (map (\<lambda>c. [c]) xs) p = Inr p"
  by (induction xs) (simp_all add: split_def load_entry_def strip_def)

lemma sl_char: "9 \<le> a \<Longrightarrow> sl a b [c] = Inr []"
  by (simp add: sl_def slice_def strip_def)

lemma lower_P: "lower ''P'' = ''p''"
  by code_simp

subsection \<open>The property grammar\<close>

text \<open>
  C2. An entry with an abbreviation code between blanks is cut into three pieces at
  its first two blanks, and the claim has the value stored under the first piece.
  On the continuation line \<^verbatim>\<open>BE2W GT 5$FL=0\<close> the source stores \<^verbatim>\<open>"5 GT"\<close> under
  the key \<^verbatim>\<open>GT\<close>, the second piece, and nothing under \<^verbatim>\<open>BE2W\<close>; the entry
  \<^verbatim>\<open>FL=0\<close> after it is not processed.
\<close>

theorem load_prop_abbreviation_key_is_code:
  "load_prop ['' 60NI2  G BE2W GT 5$FL=0''] [] = Inr [(''GT'', ''5 GT'')]"
  by code_simp

subsection \<open>Parent records in the header\<close>

lemma ParentRecord_init_string:
  "line \<noteq> [] \<Longrightarrow> ParentRecord_init me (map (\<lambda>c. [c]) line) =
     Inr \<lparr>props = [(''E'', []), (''DE'', []), (''J'', []), (''T'', []), (''DT'', []),
                  (''QP'', []), (''DQP'', []), (''ION'', [])],
          dataset = me, comments = [], xref = None\<rparr>"
  by (cases line)
     (simp_all add: ParentRecord_init_def Record_init_def first_item_def ebind_def sl_char
        setitem_def drop_map load_prop_chars)

text \<open>
  C10. In the header state, an iteration of the loop on a line with \<^verbatim>\<open>P\<close> in column 7
  (and no comment letter in column 6, so that the branch is reached) does not raise,
  and appends to \<^verbatim>\<open>parents\<close> a ParentRecord whose \<^verbatim>\<open>prop\<close> has exactly the eight
  fixed fields, each the empty string, whatever the line holds: the constructor
  receives the line itself, not a list of lines.
\<close>

theorem header_parent_record_fields_empty:
  assumes "loc_header st" and "7 < length line" and "line ! 7 = CHR ''P''"
    and "upper [line ! 6] \<notin> set [''C'', ''D'', ''T'']"
  shows "parse_line ext me line st =
     Inr (st\<lparr>self_ds := (self_ds st)\<lparr>parents := parents (self_ds st) @
        [\<lparr>props = [(''E'', []), (''DE'', []), (''J'', []), (''T'', []), (''DT'', []),
                  (''QP'', []), (''DQP'', []), (''ION'', [])],
          dataset = me, comments = [], xref = None\<rparr>]\<rparr>\<rparr>)"
proof -
  have ne: "line \<noteq> []"
    using assms(2) by auto
  have sig: "record_signature line = Inr False"
    using assms(2,3) by (simp add: record_signature_def getitem_Inr ebind_def lower_P)
  have "header_line me line st =
     Inr (st\<lparr>self_ds := (self_ds st)\<lparr>parents := parents (self_ds st) @
        [\<lparr>props = [(''E'', []), (''DE'', []), (''J'', []), (''T'', []), (''DT'', []),
                  (''QP'', []), (''DQP'', []), (''ION'', [])],
          dataset = me, comments = [], xref = None\<rparr>]\<rparr>\<rparr>)"
    using assms(2,3,4)
    by (simp add: header_line_def getitem_Inr ebind_def sig ParentRecord_init_string[OF ne] Let_def)
  then show ?thesis
    using assms(1) by (simp add: parse_line_def ebind_def)
qed

theorem header_parent_record_fields_empty_witness:
  "parents
     (self_ds
        (projr
           (parse_line spec_externals 0
              (ljust 80 '' 60CO  P 0.0         5+                5.2714 Y  6'')
              (initial_locals (new_dataset (ljust 80 '' 60NI    60CO B- DECAY'') []))))) =
   [\<lparr>props = [(''E'', []), (''DE'', []), (''J'', []), (''T'', []), (''DT'', []),
              (''QP'', []), (''DQP'', []), (''ION'', [])],
     dataset = 0, comments = [], xref = None\<rparr>]"
proof -
  let ?line = "ljust 80 '' 60CO  P 0.0         5+                5.2714 Y  6''"
  let ?st = "initial_locals (new_dataset (ljust 80 '' 60NI    60CO B- DECAY'') [])"
  have h1: "loc_header ?st"
    by (simp add: initial_locals_def)
  have h2: "7 < length ?line"
    by code_simp
  have h3: "?line ! 7 = CHR ''P''"
    by code_simp
  have h4: "upper [?line ! 6] \<notin> set [''C'', ''D'', ''T'']"
    by code_simp
  have p: "parents (self_ds ?st) = []"
    by (simp add: initial_locals_def new_dataset_def)
  show ?thesis
    using header_parent_record_fields_empty [OF h1 h2 h3 h4, of spec_externals 0]
    by (simp add: p)
qed

subsection \<open>Classification of body lines\<close>

lemma getitem_slice:
  assumes "9 \<le> length l" and "5 \<le> i" and "i < 9"
  shows "getitem l i = Inr [slice 5 9 l ! (i - 5)]"
  using assms by (simp add: getitem_def slice_def)

lemma slice_5_7: "slice 5 7 l = take 2 (slice 5 9 l)"
  by (simp add: slice_def take_drop)

lemma classify_body_cols:
  assumes "9 \<le> length l1" and "9 \<le> length l2" and "slice 5 9 l1 = slice 5 9 l2"
  shows "classify_body l1 = classify_body l2"
proof -
  have g: "getitem l1 6 = getitem l2 6" "getitem l1 7 = getitem l2 7"
      "getitem l1 8 = getitem l2 8"
    using assms by (simp_all add: getitem_slice)
  have s: "slice 5 7 l1 = slice 5 7 l2"
    using assms(3) by (simp add: slice_5_7)
  show ?thesis
    unfolding classify_body_def record_signature_def g s by (rule refl)
qed

lemma slice_of_take:
  assumes "take 9 l1 = take 9 l2"
  shows "slice 5 9 l1 = slice 5 9 (l2 :: string)"
proof -
  have "slice 5 9 l = drop 5 (take 9 l)" for l :: string
    by (simp add: slice_def drop_take)
  then show ?thesis
    using assms by simp
qed

text \<open>
  C8. Two card images of 80 characters that agree in columns 0-8 take the same
  branch of the body chain, whatever stands in columns 9-79; more precisely the
  branch is determined by columns 5-8 alone.
\<close>

theorem classify_body_depends_on_columns_5_to_8:
  assumes "length l1 = 80" and "length l2 = 80"
  shows "(take 9 l1 = take 9 l2 \<longrightarrow> classify_body l1 = classify_body l2) \<and>
         (slice 5 9 l1 = slice 5 9 l2 \<longrightarrow> classify_body l1 = classify_body l2)"
  using assms classify_body_cols [of l1 l2] slice_of_take [of l1 l2] by simp

theorem classify_body_depends_on_columns_5_to_8_witness:
  "ljust 80 '' 60NI  L 1332.508  4    4+'' \<noteq> ljust 80 '' 60NI  L 2158.632  8    2+'' \<and>
   classify_body (ljust 80 '' 60NI  L 1332.508  4    4+'') = Inr RecordStart \<and>
   classify_body (ljust 80 '' 60NI  L 2158.632  8    2+'') = Inr RecordStart"
proof -
  let ?a = "ljust 80 '' 60NI  L 1332.508  4    4+''"
  let ?b = "ljust 80 '' 60NI  L 2158.632  8    2+''"
  have la: "length ?a = 80" and lb: "length ?b = 80"
    by (simp_all add: ljust_def)
  have t: "take 9 ?a = take 9 ?b"
    by (simp add: ljust_def)
  have d: "?a \<noteq> ?b"
    by (simp add: ljust_def)
  have c: "classify_body ?a = Inr RecordStart"
    by code_simp
  from classify_body_depends_on_columns_5_to_8 [OF la lb] t
  have "classify_body ?a = classify_body ?b"
    by blast
  with c d show ?thesis
    by simp
qed

subsection \<open>The estimated destination energy\<close>

lemma ebind_InrE:
  assumes "ebind m f = Inr y"
  obtains x where "m = Inr x" and "f x = Inr y"
  using assms by (cases m) (simp_all add: ebind_def)

lemma dest_energy_from_orig_level:
  assumes "map_of (props g) ''FL'' = None" and "orig_level g = Some i"
    and "az_from_nucid ext (nucid ds) = Inr (A, z)"
    and "val (gamma_energy g) = Some eg"
    and "val (lvl_energy (levels ds ! i)) = Some el"
    and "real_of_int A * amu ext \<noteq> 0"
  shows "dest_energy ext ds g =
     Inr (Some (Some (el - eg * (1 + 2 * (0.001 * eg) / (real_of_int A * amu ext)))))"
  using assms by (simp add: dest_energy_def ebind_def energy_i_def)

lemma az_60NI: "spec_az_from_nucid ''60NI'' = Inr (60, None)"
  by code_simp

lemma nucid_example_dataset:
  "nucid (example_dataset '' 60NI    ADOPTED LEVELS'' ls) = ''60NI''"
  by (simp add: example_dataset_def new_dataset_def ljust_def slice_def strip_def isspace_def)

lemma dest_energy_example:
  "dest_energy spec_externals
     (example_dataset '' 60NI    ADOPTED LEVELS'' [example_level (Some 1332) None])
     (example_gamma [] (Some 0) (Some 1000) None)
   = Inr (Some (Some (1332 - 1000 * (1 + 2 * (0.001 * 1000) / (60 * 931.49410242)))))"
proof -
  let ?ds = "example_dataset '' 60NI    ADOPTED LEVELS'' [example_level (Some 1332) None]"
  let ?g = "example_gamma [] (Some 0) (Some 1000) None"
  have h1: "map_of (props ?g) ''FL'' = None"
    by (simp add: example_gamma_def)
  have h2: "orig_level ?g = Some 0"
    by (simp add: example_gamma_def)
  have h3: "az_from_nucid spec_externals (nucid ?ds) = Inr (60, None)"
    by (simp add: spec_externals_def nucid_example_dataset az_60NI)
  have h4: "val (gamma_energy ?g) = Some 1000"
    by (simp add: example_gamma_def)
  have h5: "val (lvl_energy (levels ?ds ! 0)) = Some 1332"
    by (simp add: example_dataset_def example_level_def)
  have h6: "real_of_int 60 * amu spec_externals \<noteq> 0"
    by (simp add: spec_externals_def)
  show ?thesis
    using dest_energy_from_orig_level [OF h1 h2 h3 h4 h5 h6] by (simp add: spec_externals_def)
qed

text \<open>
  C1, as the claim states it, fails: for a gamma of 1000 keV from the 1332 keV level
  of a nuclide of mass 60, without \<^verbatim>\<open>FL\<close>, the estimate of the source is not
  \<open>1332 - 1000 (1 + 0.001 1000 / (60 amu))\<close>.
\<close>

theorem dest_energy_is_not_single_recoil:
  "dest_energy spec_externals
     (example_dataset '' 60NI    ADOPTED LEVELS'' [example_level (Some 1332) None])
     (example_gamma [] (Some 0) (Some 1000) None)
   \<noteq> Inr (Some (Some (1332 - 1000 * (1 + 0.001 * 1000 / (60 * 931.49410242)))))"
  by (simp add: dest_energy_example)

text \<open>
  C1, amended. For a gamma record without \<^verbatim>\<open>FL\<close> whose originating level is known,
  when the mass number \<open>A\<close> is obtained from the nuclide id, the gamma energy and the
  level energy have values and \<open>A amu\<close> is not zero, the estimated destination energy
  is the level energy minus \<open>Ei\<close> with \<open>Ei = E (1 + 2 (0.001 E) / (A amu))\<close>: the
  recoil term of the source carries a factor 2.
\<close>

theorem dest_energy_recoil_corrected:
  assumes "map_of (props g) ''FL'' = None" and "orig_level g = Some i"
    and "az_from_nucid ext (nucid ds) = Inr (A, z)"
    and "val (gamma_energy g) = Some eg"
    and "val (lvl_energy (levels ds ! i)) = Some el"
    and "real_of_int A * amu ext \<noteq> 0"
  shows "dest_energy ext ds g =
     Inr (Some (Some (el - eg * (1 + 2 * (0.001 * eg) / (real_of_int A * amu ext)))))"
  using assms by (rule dest_energy_from_orig_level)

theorem dest_energy_recoil_corrected_witness:
  "dest_energy spec_externals
     (example_dataset '' 60NI    ADOPTED LEVELS'' [example_level (Some 1332) None])
     (example_gamma [] (Some 0) (Some 1000) None)
   = Inr (Some (Some (1332 - 1000 * (1 + 2 * (0.001 * 1000) / (60 * 931.49410242)))))"
proof -
  let ?ds = "example_dataset '' 60NI    ADOPTED LEVELS'' [example_level (Some 1332) None]"
  let ?g = "example_gamma [] (Some 0) (Some 1000) None"
  have h1: "map_of (props ?g) ''FL'' = None"
    by (simp add: example_gamma_def)
  have h2: "orig_level ?g = Some 0"
    by (simp add: example_gamma_def)
  have h3: "az_from_nucid spec_externals (nucid ?ds) = Inr (60, None)"
    by (simp add: spec_externals_def nucid_example_dataset az_60NI)
  have h4: "val (gamma_energy ?g) = Some 1000"
    by (simp add: example_gamma_def)
  have h5: "val (lvl_energy (levels ?ds ! 0)) = Some 1332"
    by (simp add: example_dataset_def example_level_def)
  have h6: "real_of_int 60 * amu spec_externals \<noteq> 0"
    by (simp add: spec_externals_def)
  show ?thesis
    using dest_energy_recoil_corrected [OF h1 h2 h3 h4 h5 h6] by (simp add: spec_externals_def)
qed

subsection \<open>Destination resolution\<close>

lemma GammaRecord_fields_result:
  assumes "GammaRecord_fields ext me ds record cmts xr orig = Inr (g, ds1)"
  shows "dest_level g = None \<and> orig_level g = orig \<and> dataset g = me \<and>
         ds1 = (case orig of
                  None \<Rightarrow> ds
                | Some i \<Rightarrow>
                    ds\<lparr>levels := (levels ds)
                         [i := add_decay (length (records ds)) (levels ds ! i)]\<rparr>)"
  using assms unfolding GammaRecord_fields_def Let_def
  by (elim ebind_InrE) (auto simp: DecayRecord_init_def Record_init_def)

lemma no_candidate:
  assumes "dest_energy ext ds g = Inr est" and "candidates ds g = []"
  shows "determine_dest_level ext this ds g = Inr (g, ds)"
  using assms
  by (simp add: determine_dest_level_def ebind_def py_min_def split: option.splits)

text \<open>
  C4. A gamma record is built by \<^verbatim>\<open>_add_record\<close>; let its fields be read without
  error and the estimate of the destination energy be formed (or the method return
  early). When no level of the dataset has the offset tag of the gamma energy,
  destination resolution returns without an error and changes neither the gamma,
  whose \<^verbatim>\<open>dest_level\<close> is absent, nor any level; \<^verbatim>\<open>_add_record\<close> appends the gamma
  to \<^verbatim>\<open>records\<close> and returns, so the loop goes on with the next line.
\<close>

theorem empty_candidates_leave_dest_level_absent:
  assumes "get_record_type record = Inr GammaRecord_class"
    and "GammaRecord_fields ext me ds record cmts xr level = Inr (g, ds1)"
    and "dest_energy ext ds1 g = Inr est"
    and "candidates ds1 g = []"
  shows "determine_dest_level ext (length (records ds)) ds1 g = Inr (g, ds1) \<and>
         dest_level g = None \<and>
         add_record ext me ds record cmts xr level =
           Inr (ds1\<lparr>records := records ds1 @ [GammaRecord g]\<rparr>)"
proof -
  have d: "determine_dest_level ext (length (records ds)) ds1 g = Inr (g, ds1)"
    using assms(3,4) by (rule no_candidate)
  have n: "dest_level g = None"
    using GammaRecord_fields_result [OF assms(2)] by simp
  have "GammaRecord_init ext me ds record cmts xr level = Inr (g, ds1)"
    using assms(2) d by (simp add: GammaRecord_init_def ebind_def)
  then have "add_record ext me ds record cmts xr level =
      Inr (ds1\<lparr>records := records ds1 @ [GammaRecord g]\<rparr>)"
    using assms(1) by (simp add: add_record_def ebind_def)
  with d n show ?thesis
    by simp
qed

lemma GammaRecord_fields_example:
  "GammaRecord_fields spec_externals 0 (new_dataset (ljust 80 '' 60NI    ADOPTED LEVELS'') [])
     [ljust 80 '' 60NI  G 1000'', ljust 80 '' 60NI2 G FL=100$''] [] [] None =
   Inr (example_gamma
          [(''E'', ''1000''), (''DE'', []), (''RI'', []), (''DRI'', []), (''M'', []),
           (''MR'', []), (''DMR'', []), (''CC'', []), (''DCC'', []), (''TI'', []),
           (''DTI'', []), (''C'', []), (''COIN'', []), (''Q'', []), (''FL'', ''100'')]
          None (Some 1000) None,
        new_dataset (ljust 80 '' 60NI    ADOPTED LEVELS'') [])"
  by code_simp

theorem empty_candidates_leave_dest_level_absent_witness:
  "add_record spec_externals 0 (new_dataset (ljust 80 '' 60NI    ADOPTED LEVELS'') [])
     [ljust 80 '' 60NI  G 1000'', ljust 80 '' 60NI2 G FL=100$''] [] [] None =
   Inr ((new_dataset (ljust 80 '' 60NI    ADOPTED LEVELS'') [])
        \<lparr>records :=
           [GammaRecord (example_gamma
              [(''E'', ''1000''), (''DE'', []), (''RI'', []), (''DRI'', []), (''M'', []),
               (''MR'', []), (''DMR'', []), (''CC'', []), (''DCC'', []), (''TI'', []),
               (''DTI'', []), (''C'', []), (''COIN'', []), (''Q'', []), (''FL'', ''100'')]
              None (Some 1000) None)]\<rparr>)"
proof -
  let ?ds = "new_dataset (ljust 80 '' 60NI    ADOPTED LEVELS'') []"
  let ?rec = "[ljust 80 '' 60NI  G 1000'', ljust 80 '' 60NI2 G FL=100$'']"
  let ?g = "example_gamma
              [(''E'', ''1000''), (''DE'', []), (''RI'', []), (''DRI'', []), (''M'', []),
               (''MR'', []), (''DMR'', []), (''CC'', []), (''DCC'', []), (''TI'', []),
               (''DTI'', []), (''C'', []), (''COIN'', []), (''Q'', []), (''FL'', ''100'')]
              None (Some 1000) None"
  have h1: "get_record_type ?rec = Inr GammaRecord_class"
    by code_simp
  have h3: "dest_energy spec_externals ?ds ?g = Inr (Some (Some 100))"
    by code_simp
  have h4: "candidates ?ds ?g = []"
    by (simp add: candidates_def new_dataset_def)
  have r: "records ?ds = []"
    by (simp add: new_dataset_def)
  show ?thesis
    using empty_candidates_leave_dest_level_absent [OF h1 GammaRecord_fields_example h3 h4]
    by (simp add: r)
qed

subsection \<open>Splitting, padding and fields of card images\<close>

text \<open>
  From here on \<open>ebind\<close> is evaluated by the simplifier. The facts of this section
  let the worked datasets be run line by line, without evaluating 80-character
  literals: a split at the first separator, the lines of a text made of card images,
  and the fields of a line padded with blanks.
\<close>

lemma ebind_Inr [simp]: "ebind (Inr x) f = f x"
  by (simp add: ebind_def)
lemma ebind_Inl [simp]: "ebind (Inl e) f = Inl e"
  by (simp add: ebind_def)

lemma splitn_cons:
  assumes "c \<notin> set a"
  shows "splitn (Suc n) c (a @ c # rest) = a # splitn n c rest"
proof -
  have n: "\<And>x. x \<in> set a \<Longrightarrow> x \<noteq> c"
    using assms by auto
  have "takeWhile (\<lambda>x. x \<noteq> c) (a @ c # rest) = a"
    using n by (subst takeWhile_append2) simp_all
  moreover have "dropWhile (\<lambda>x. x \<noteq> c) (a @ c # rest) = c # rest"
    using n by (subst dropWhile_append2) simp_all
  ultimately show ?thesis by simp
qed

lemma splitn_fuel:
  "length (filter (\<lambda>x. x = c) s) \<le> n \<Longrightarrow> length (filter (\<lambda>x. x = c) s) \<le> m \<Longrightarrow>
     splitn n c s = splitn m c s"
proof (induction n arbitrary: s m)
  case 0
  then have "c \<notin> set s" by (auto simp: filter_empty_conv)
  then show ?case by (cases m) simp_all
next
  case (Suc n)
  show ?case
  proof (cases "c \<in> set s")
    case False
    then show ?thesis by (cases m) simp_all
  next
    case True
    then obtain a rest where s: "s = a @ c # rest" "c \<notin> set a"
      by (meson split_list_first)
    from s Suc.prems obtain m' where m: "m = Suc m'"
      by (cases m) auto
    have f: "length (filter (\<lambda>x. x = c) s) = Suc (length (filter (\<lambda>x. x = c) rest))"
      using s by (auto simp: filter_empty_conv)
    have "splitn n c rest = splitn m' c rest"
      using Suc.prems f m by (intro Suc.IH) simp_all
    then show ?thesis
      unfolding s(1) m using s(2) by (simp add: splitn_cons del: splitn.simps)
  qed
qed

lemma split_cons:
  assumes "c \<notin> set a"
  shows "split c (a @ c # rest) = a # split c rest"
proof -
  have "split c (a @ c # rest) = a # splitn (length a + length rest) c rest"
    using assms by (simp add: split_def splitn_cons del: splitn.simps)
  also have "splitn (length a + length rest) c rest = splitn (length rest) c rest"
    by (rule splitn_fuel) (simp_all add: le_trans [OF length_filter_le])
  finally show ?thesis by (simp add: split_def)
qed


lemma split_dataset_text:
  assumes "\<forall>l\<in>set ls. CHR 0x0A \<notin> set l"
  shows "split (CHR 0x0A) (dataset_text ls) = map (ljust 80) ls @ [[]]"
  using assms
proof (induction ls)
  case Nil
  then show ?case by (simp add: dataset_text_def split_def)
next
  case (Cons l ls)
  have "CHR 0x0A \<notin> set (ljust 80 l)"
    using Cons.prems by (auto simp: ljust_def)
  then have "split (CHR 0x0A) (ljust 80 l @ CHR 0x0A # dataset_text ls)
       = ljust 80 l # split (CHR 0x0A) (dataset_text ls)"
    by (rule split_cons)
  then show ?case using Cons by (simp add: dataset_text_def)
qed

lemma strip_blanks: "strip (xs @ replicate k (CHR '' '')) = strip xs"
proof -
  have sp: "isspace (CHR '' '')" by (simp add: isspace_def)
  have a: "dropWhile isspace (replicate k (CHR '' '') @ ys) = dropWhile isspace ys" for ys
    by (induction k) (simp_all add: sp)
  show ?thesis
  proof (cases "\<forall>x\<in>set xs. isspace x")
    case True
    then have e1: "dropWhile isspace (xs @ replicate k (CHR '' '')) = []"
      by (auto simp: dropWhile_eq_Nil_conv sp)
    have e2: "dropWhile isspace xs = []"
      using True by (simp add: dropWhile_eq_Nil_conv)
    show ?thesis
      unfolding strip_def e1 e2 by simp
  next
    case False
    then have "dropWhile isspace (xs @ replicate k (CHR '' '')) =
       dropWhile isspace xs @ replicate k (CHR '' '')"
      by (metis dropWhile_append1)
    then show ?thesis by (simp add: strip_def a)
  qed
qed

lemma slice_ljust: "\<exists>k. slice a b (ljust n s) = slice a b s @ replicate k (CHR '' '')"
  by (auto simp: slice_def ljust_def take_replicate drop_replicate
      intro: exI)

lemma field_ljust: "strip (slice a b (ljust n s)) = strip (slice a b s)"
proof -
  obtain k where "slice a b (ljust n s) = slice a b s @ replicate k (CHR '' '')"
    using slice_ljust by blast
  then show ?thesis by (simp add: strip_blanks)
qed

lemma slice_ljust_inside: "b \<le> length s \<Longrightarrow> slice a b (ljust n s) = slice a b s"
  by (simp add: slice_def ljust_def)

lemma getitem_ljust: "i < length s \<Longrightarrow> getitem (ljust n s) i = Inr [s ! i]"
  by (simp add: getitem_def ljust_def nth_append)

lemma getitem_ljust_pad: "length s \<le> i \<Longrightarrow> i < n \<Longrightarrow> getitem (ljust n s) i = Inr '' ''"
  by (simp add: getitem_def ljust_def nth_append)

lemma length_ljust: "length s \<le> n \<Longrightarrow> length (ljust n s) = n"
  by (simp add: ljust_def)

subsection \<open>Records of one line\<close>

text \<open>
  The constructors of LevelRecord and GammaRecord on a record of a single line of at
  least 80 characters, when the external \<^verbatim>\<open>Quantity\<close> accepts its fields: no
  continuation line, so \<^verbatim>\<open>load_prop\<close> adds nothing and \<^verbatim>\<open>FL\<close> is absent.
\<close>

lemma load_attr_fixed:
  "load_attr ext
     [(''E'', e), (''DE'', de), (''RI'', ri), (''DRI'', dri), (''M'', m), (''MR'', mr),
      (''DMR'', dmr), (''CC'', cc), (''DCC'', dcc), (''TI'', ti), (''DTI'', dti),
      (''C'', c), (''COIN'', coin), (''Q'', q)] = Inr []"
  by (simp add: slice_def)

lemma level_props:
  assumes "80 \<le> length l"
  shows "assign
               [(''E'', sl 9 19 l), (''DE'', sl 19 21 l), (''J'', sl 21 39 l),
                (''T'', sl 39 49 l), (''DT'', sl 49 55 l), (''L'', sl 55 64 l),
                (''S'', sl 64 74 l), (''DS'', sl 74 76 l), (''C'', ix 76 l),
                (''MS'', sl 77 79 l), (''Q'', ix 79 l)] [] =
        Inr [(''E'', strip (slice 9 19 l)), (''DE'', strip (slice 19 21 l)),
             (''J'', strip (slice 21 39 l)), (''T'', strip (slice 39 49 l)),
             (''DT'', strip (slice 49 55 l)), (''L'', strip (slice 55 64 l)),
             (''S'', strip (slice 64 74 l)), (''DS'', strip (slice 74 76 l)),
             (''C'', strip [l ! 76]), (''MS'', strip (slice 77 79 l)),
             (''Q'', strip [l ! 79])]"
  using assms by (simp add: sl_def ix_def getitem_def setitem_def)


lemma LevelRecord_init_one_line:
  assumes "80 \<le> length l"
    and "Quantity ext (strip (slice 9 19 l)) (Some (strip (slice 19 21 l))) True = Inr qe"
    and "Quantity ext (strip (slice 39 49 l)) (Some (strip (slice 49 55 l))) True = Inr qt"
    and "Quantity ext (strip (slice 64 74 l)) (Some (strip (slice 74 76 l))) True = Inr qs"
  shows "\<exists>lv. LevelRecord_init ext me [l] cmts xr = Inr lv \<and> lvl_energy lv = qe \<and>
           decays lv = [] \<and> populating lv = [] \<and> dataset lv = me"
  unfolding LevelRecord_init_def Let_def
  by (simp add: Record_init_def first_item_def level_props [OF assms(1)] dict_get_def assms(2-4)
      del: assign.simps)


lemma gamma_props:
  assumes "80 \<le> length l"
  shows "assign
               [(''E'', sl 9 19 l), (''DE'', sl 19 21 l), (''RI'', sl 21 29 l),
                (''DRI'', sl 29 31 l), (''M'', sl 31 41 l), (''MR'', sl 41 49 l),
                (''DMR'', sl 49 55 l), (''CC'', sl 55 62 l), (''DCC'', sl 62 64 l),
                (''TI'', sl 64 74 l), (''DTI'', sl 74 76 l), (''C'', ix 76 l),
                (''COIN'', ix 78 l), (''Q'', ix 79 l)] [] =
        Inr [(''E'', strip (slice 9 19 l)), (''DE'', strip (slice 19 21 l)),
             (''RI'', strip (slice 21 29 l)), (''DRI'', strip (slice 29 31 l)),
             (''M'', strip (slice 31 41 l)), (''MR'', strip (slice 41 49 l)),
             (''DMR'', strip (slice 49 55 l)), (''CC'', strip (slice 55 62 l)),
             (''DCC'', strip (slice 62 64 l)), (''TI'', strip (slice 64 74 l)),
             (''DTI'', strip (slice 74 76 l)), (''C'', strip [l ! 76]),
             (''COIN'', strip [l ! 78]), (''Q'', strip [l ! 79])]"
  using assms by (simp add: sl_def ix_def getitem_def setitem_def)

lemma GammaRecord_fields_one_line:
  assumes "80 \<le> length l"
    and "Quantity ext (strip (slice 9 19 l)) (Some (strip (slice 19 21 l))) True = Inr qe"
    and "Quantity ext (strip (slice 21 29 l)) (Some (strip (slice 29 31 l))) True = Inr q1"
    and "Quantity ext (strip (slice 41 49 l)) (Some (strip (slice 49 55 l))) True = Inr q2"
    and "Quantity ext (strip (slice 55 62 l)) (Some (strip (slice 62 64 l))) True = Inr q3"
    and "Quantity ext (strip (slice 64 74 l)) (Some (strip (slice 74 76 l))) True = Inr q4"
  shows "\<exists>g. GammaRecord_fields ext me ds [l] cmts xr orig =
             Inr (g, case orig of None \<Rightarrow> ds
                     | Some i \<Rightarrow> ds\<lparr>levels := (levels ds)
                          [i := add_decay (length (records ds)) (levels ds ! i)]\<rparr>) \<and>
           gamma_energy g = qe \<and> orig_level g = orig \<and> dest_level g = None \<and>
           map_of (props g) ''FL'' = None \<and> dataset g = me"
  unfolding GammaRecord_fields_def Let_def
  by (simp add: DecayRecord_init_def Record_init_def first_item_def gamma_props [OF assms(1)]
      dict_get_def assms(2-6) load_attr_fixed del: assign.simps load_attr.simps)

subsection \<open>Steps of the parser loop\<close>

text \<open>
  One iteration of the loop on a line that starts a record, in either state, and the
  closing of a pending level or gamma record.
\<close>

lemma parse_line_record_start:
  assumes "getitem l 6 = Inr '' ''" and "record_signature l = Inr True"
    and "classify_body l = Inr RecordStart"
  shows "parse_line ext me l st =
     ebind (close_record ext me (st\<lparr>loc_header := False\<rparr>)) (\<lambda>st'.
       Inr (st'\<lparr>loc_comments := [], loc_record := [l], loc_xref := []\<rparr>))"
proof (cases "loc_header st")
  case True
  have u: "upper '' '' = '' ''" by code_simp
  from assms(2) obtain c7 where c7: "getitem l 7 = Inr c7"
    by (cases "getitem l 7") (simp_all add: record_signature_def)
  have "header_line me l st = Inr (st\<lparr>loc_header := False\<rparr>)"
    by (simp add: header_line_def assms(1,2) u c7)
  then show ?thesis using True by (simp add: parse_line_def body_line_def assms(3))
next
  case False
  then have e: "st\<lparr>loc_header := False\<rparr> = st" by simp
  show ?thesis unfolding e using False by (simp add: parse_line_def body_line_def assms(3))
qed

lemma close_record_level:
  assumes "loc_record st = l # ls" and "getitem l 7 = Inr ''L''"
    and "LevelRecord_init ext me (l # ls) (loc_comments st) (loc_xref st) = Inr lv"
  shows "close_record ext me st =
     Inr (st\<lparr>loc_level := Some (length (levels (self_ds st))),
             self_ds := (self_ds st)\<lparr>levels := levels (self_ds st) @ [lv]\<rparr>\<rparr>)"
  using assms by (simp add: close_record_def first_item_def add_level_def)

lemma close_record_gamma:
  assumes "loc_record st = l # ls" and "getitem l 7 = Inr ''G''"
    and "GammaRecord_init ext me (self_ds st) (l # ls) (loc_comments st) (loc_xref st) (loc_level st)
          = Inr (g, ds')"
  shows "close_record ext me st =
     Inr (st\<lparr>self_ds := ds'\<lparr>records := records ds' @ [GammaRecord g]\<rparr>\<rparr>)"
  using assms by (simp add: close_record_def first_item_def add_record_def get_record_type_def)

lemma close_record_nothing: "loc_record st = [] \<Longrightarrow> close_record ext me st = Inr st"
  by (simp add: close_record_def)

lemma blank_field: "length s \<le> a \<Longrightarrow> strip (slice a b (ljust n s)) = []"
  by (simp add: field_ljust) (simp add: slice_def strip_def)

lemma spec_Quantity_blank: "spec_Quantity [] pm hu = Inr blank_quantity"
  by (simp add: spec_Quantity_def strip_def blank_quantity_def)

lemma L0_class: "classify_body (ljust 80 '' 60NI  L 0'') = Inr RecordStart"
  by code_simp

lemma L0_signature: "record_signature (ljust 80 '' 60NI  L 0'') = Inr True"
  by code_simp

lemma L0_col6: "getitem (ljust 80 '' 60NI  L 0'') 6 = Inr '' ''"
  by code_simp

lemma L0_col7: "getitem (ljust 80 '' 60NI  L 0'') 7 = Inr ''L''"
  by code_simp

lemma L0_energy: "strip (slice 9 19 (ljust 80 '' 60NI  L 0'')) = ''0''"
  by code_simp

lemma Quantity_0: "spec_Quantity ''0'' (Some []) True = Inr \<lparr>val = Some 0, offset = None\<rparr>"
  by code_simp

subsection \<open>Two worked datasets\<close>

text \<open>
  The end-to-end scenarios of the specification, parsed from their text: a ground
  state level followed by a gamma of 1000 keV, and two levels at 0 and 1000 keV
  followed by a gamma of 1000 keV from the upper one.
\<close>

lemma G1000_class: "classify_body (ljust 80 '' 60NI  G 1000'') = Inr RecordStart"
  by code_simp

lemma G1000_signature: "record_signature (ljust 80 '' 60NI  G 1000'') = Inr True"
  by code_simp

lemma G1000_col6: "getitem (ljust 80 '' 60NI  G 1000'') 6 = Inr '' ''"
  by code_simp

lemma G1000_col7: "getitem (ljust 80 '' 60NI  G 1000'') 7 = Inr ''G''"
  by code_simp

lemma G1000_energy: "strip (slice 9 19 (ljust 80 '' 60NI  G 1000'')) = ''1000''"
  by code_simp

lemma Quantity_1000: "spec_Quantity ''1000'' (Some []) True = Inr \<lparr>val = Some 1000, offset = None\<rparr>"
  by code_simp

lemma nucid_60NI: "nucid (new_dataset (ljust 80 '' 60NI    ADOPTED LEVELS'') r) = ''60NI''"
  by (simp add: new_dataset_def field_ljust) code_simp
lemma add_decay_fields:
  "lvl_energy (add_decay d l) = lvl_energy l"
  "populating (add_decay d l) = populating l"
  "decays (add_decay d l) = decays l @ [d]"
  by (simp_all add: add_decay_def)

lemma new_dataset_fields:
  "raw (new_dataset h r) = r" "records (new_dataset h r) = []" "levels (new_dataset h r) = []"
  "history (new_dataset h r) = []" "qrecords (new_dataset h r) = []"
  "parents (new_dataset h r) = []" "cross_references (new_dataset h r) = []"
  by (simp_all add: new_dataset_def)

lemma initial_locals_fields:
  "loc_comments (initial_locals ds) = []" "loc_record (initial_locals ds) = []"
  "loc_xref (initial_locals ds) = []" "loc_level (initial_locals ds) = None"
  "loc_history (initial_locals ds) = []" "loc_header (initial_locals ds)"
  "self_ds (initial_locals ds) = ds"
  by (simp_all add: initial_locals_def)

lemma ground_state_dataset:
  "map_sum id level_graph
     (Dataset_init spec_externals 0
        (dataset_text ['' 60NI    ADOPTED LEVELS'', '' 60NI  L 0'', '' 60NI  G 1000''])) =
   Inr ([(Some 0, [0], [0])], [Some (Some 1000, Some 0, Some 0)])"
proof -
  let ?H = "ljust 80 '' 60NI    ADOPTED LEVELS''"
  let ?A = "ljust 80 '' 60NI  L 0''"
  let ?G = "ljust 80 '' 60NI  G 1000''"
  let ?ds0 = "new_dataset ?H [?A, ?G, []]"
  have sp: "split (CHR 0x0A)
       (dataset_text ['' 60NI    ADOPTED LEVELS'', '' 60NI  L 0'', '' 60NI  G 1000'']) =
     [?H, ?A, ?G, []]"
    by (simp add: split_dataset_text)
  obtain lv where lv: "LevelRecord_init spec_externals 0 [?A] [] [] = Inr lv"
      "lvl_energy lv = \<lparr>val = Some 0, offset = None\<rparr>" "decays lv = []" "populating lv = []"
    using LevelRecord_init_one_line [of ?A spec_externals "\<lparr>val = Some 0, offset = None\<rparr>"
        blank_quantity blank_quantity 0 "[]" "[]"]
    by (auto simp: length_ljust spec_externals_def L0_energy blank_field Quantity_0 spec_Quantity_blank)
  let ?ds1 = "?ds0\<lparr>levels := [lv]\<rparr>"
  let ?ds2 = "?ds0\<lparr>levels := [add_decay 0 lv]\<rparr>"
  obtain g where g: "GammaRecord_fields spec_externals 0 ?ds1 [?G] [] [] (Some 0) = Inr (g, ?ds2)"
      "gamma_energy g = \<lparr>val = Some 1000, offset = None\<rparr>" "orig_level g = Some 0"
      "dest_level g = None" "map_of (props g) ''FL'' = None"
    using GammaRecord_fields_one_line [of ?G spec_externals "\<lparr>val = Some 1000, offset = None\<rparr>"
        blank_quantity blank_quantity blank_quantity blank_quantity 0 ?ds1 "[]" "[]" "Some 0"]
    by (auto simp: length_ljust spec_externals_def G1000_energy blank_field Quantity_1000 spec_Quantity_blank
        new_dataset_fields)
  have de: "dest_energy spec_externals ?ds2 g =
      Inr (Some (Some (0 - 1000 * (1 + 2 * (0.001 * 1000) / (real_of_int 60 * amu spec_externals)))))"
    by (rule dest_energy_from_orig_level [where z = None and i = 0])
       (simp_all add: g spec_externals_def nucid_60NI az_60NI add_decay_fields lv)
  have dd: "determine_dest_level spec_externals 0 ?ds2 g =
      Inr (g\<lparr>dest_level := Some 0\<rparr>,
           ?ds0\<lparr>levels := [(add_decay 0 lv)\<lparr>populating := [0]\<rparr>]\<rparr>)"
    by (simp add: determine_dest_level_def de candidates_def g lv add_decay_fields py_min_def
        abs_diff_def)
  have gi: "GammaRecord_init spec_externals 0 ?ds1 [?G] [] [] (Some 0) =
      Inr (g\<lparr>dest_level := Some 0\<rparr>,
           ?ds0\<lparr>levels := [(add_decay 0 lv)\<lparr>populating := [0]\<rparr>]\<rparr>)"
    by (simp add: GammaRecord_init_def g(1) dd new_dataset_fields)
  have s1: "parse_line spec_externals 0 ?A (initial_locals ?ds0) =
      Inr ((initial_locals ?ds0)\<lparr>loc_header := False, loc_record := [?A]\<rparr>)"
    by (simp add: parse_line_record_start [OF L0_col6 L0_signature L0_class] close_record_nothing initial_locals_def)
  have s2: "parse_line spec_externals 0 ?G ((initial_locals ?ds0)\<lparr>loc_header := False, loc_record := [?A]\<rparr>) =
      Inr ((initial_locals ?ds0)\<lparr>loc_header := False, loc_record := [?G], loc_level := Some 0,
            self_ds := ?ds1\<rparr>)"
    by (simp add: parse_line_record_start [OF G1000_col6 G1000_signature G1000_class] initial_locals_def
          close_record_level [where lv = lv and l = ?A and ls = "[]"] L0_col7 lv(1) new_dataset_fields)
  have s3: "close_record spec_externals 0 ((initial_locals ?ds0)\<lparr>loc_header := False, loc_record := [?G], loc_level := Some 0,
            self_ds := ?ds1\<rparr>) =
      Inr ((initial_locals ?ds0)\<lparr>loc_header := False, loc_record := [?G], loc_level := Some 0,
            self_ds := ?ds0\<lparr>levels := [(add_decay 0 lv)\<lparr>populating := [0]\<rparr>],
                           records := [GammaRecord (g\<lparr>dest_level := Some 0\<rparr>)]\<rparr>\<rparr>)"
    by (simp add: close_record_gamma [where l = ?G and ls = "[]" and g = "g\<lparr>dest_level := Some 0\<rparr>"
           and ds' = "?ds0\<lparr>levels := [(add_decay 0 lv)\<lparr>populating := [0]\<rparr>]\<rparr>"]
        initial_locals_def G1000_col7 gi new_dataset_fields)
  have pl: "parse_lines spec_externals 0 [?A, ?G] (initial_locals ?ds0) =
      Inr ((initial_locals ?ds0)\<lparr>loc_header := False, loc_record := [?G], loc_level := Some 0,
            self_ds := ?ds1\<rparr>)"
    by (simp add: s1 s2)
  have "parse_dataset spec_externals 0 ?ds0 =
     Inr (?ds0\<lparr>levels := [(add_decay 0 lv)\<lparr>populating := [0]\<rparr>],
                records := [GammaRecord (g\<lparr>dest_level := Some 0\<rparr>)], history := []\<rparr>)"
    by (simp add: parse_dataset_def new_dataset_fields pl s3 initial_locals_fields split_def
        del: parse_lines.simps)
  then show ?thesis
    by (simp add: Dataset_init_def sp level_graph_def level_view_def gamma_view_def g lv add_decay_fields)
qed







subsection \<open>The nearest level\<close>





lemma levels_example_dataset: "levels (example_dataset h ls) = ls"
  by (simp add: example_dataset_def)



subsection \<open>Gammas and the decays of their level\<close>

lemma map_update_same: "(map f xs)[i := f (xs ! i)] = map f xs"
  by (cases "i < length xs") (simp_all add: list_update_same_conv list_update_beyond)

lemma determine_keeps_decays:
  assumes "determine_dest_level ext this ds g = Inr (g', ds')"
  shows "map decays (levels ds') = map decays (levels ds)"
proof -
  have u: "map decays (xs[i := (xs ! i)\<lparr>populating := p\<rparr>]) = map decays xs"
    for xs :: "level_record list" and i p
    using map_update_same [of decays xs i] by (simp add: map_update)
  from assms show ?thesis
    unfolding determine_dest_level_def
    by (elim ebind_InrE) (auto simp: u split: option.splits sum.splits if_splits)
qed

lemma gamma_joins_decays:
  assumes "GammaRecord_init ext me ds record cmts xr (Some i) = Inr (g, ds')"
    and "i < length (levels ds)"
  shows "\<exists>g0 ds1. GammaRecord_fields ext me ds record cmts xr (Some i) = Inr (g0, ds1) \<and>
           decays (levels ds1 ! i) = decays (levels ds ! i) @ [length (records ds)] \<and>
           determine_dest_level ext (length (records ds)) ds1 g0 = Inr (g, ds') \<and>
           decays (levels ds' ! i) = decays (levels ds ! i) @ [length (records ds)]"
proof -
  from assms(1) obtain x where x: "GammaRecord_fields ext me ds record cmts xr (Some i) = Inr x"
      "(case x of (g0, ds1) \<Rightarrow> determine_dest_level ext (length (records ds)) ds1 g0) = Inr (g, ds')"
    unfolding GammaRecord_init_def by (elim ebind_InrE)
  obtain g0 ds1 where p: "x = (g0, ds1)"
    by (cases x)
  from x p have f: "GammaRecord_fields ext me ds record cmts xr (Some i) = Inr (g0, ds1)"
    and d: "determine_dest_level ext (length (records ds)) ds1 g0 = Inr (g, ds')"
    by simp_all
  from GammaRecord_fields_result [OF f]
  have ds1: "ds1 = ds\<lparr>levels := (levels ds)[i := add_decay (length (records ds)) (levels ds ! i)]\<rparr>"
    by simp
  have a: "decays (levels ds1 ! i) = decays (levels ds ! i) @ [length (records ds)]"
    using assms(2) by (simp add: ds1 add_decay_fields)
  have m: "map decays (levels ds') = map decays (levels ds1)"
    using d by (rule determine_keeps_decays)
  then have "length (levels ds') = length (levels ds1)"
    by (metis length_map)
  then have i': "i < length (levels ds')" "i < length (levels ds1)"
    using assms(2) by (simp_all add: ds1)
  have "decays (levels ds' ! i) = map decays (levels ds') ! i"
    using i'(1) by simp
  also have "\<dots> = decays (levels ds1 ! i)"
    using i'(2) by (simp add: m)
  finally have b: "decays (levels ds' ! i) = decays (levels ds ! i) @ [length (records ds)]"
    using a by simp
  from f a d b show ?thesis
    by blast
qed

text \<open>
  C5, as the claim states it, fails in its example: in the dataset of one ground
  state level followed by one gamma of 1000 keV without \<^verbatim>\<open>FL\<close>, the parse does not
  end with \<^verbatim>\<open>dest_level\<close> absent and the \<^verbatim>\<open>populating\<close> list of the level empty.
\<close>

theorem ground_state_gamma_is_not_unresolved:
  "map_sum id level_graph
     (Dataset_init spec_externals 0
        (dataset_text ['' 60NI    ADOPTED LEVELS'', '' 60NI  L 0'', '' 60NI  G 1000''])) \<noteq>
   Inr ([(Some 0, [0], [])], [Some (Some 1000, Some 0, None)])"
  by (simp add: ground_state_dataset)

text \<open>
  C5, amended. When the constructor of a gamma record with originating level \<open>i\<close>
  returns, the gamma (the next position of \<^verbatim>\<open>records\<close>) was appended to the
  \<^verbatim>\<open>decays\<close> of that level before destination resolution ran, and it is still its
  last element afterwards, whatever \<^verbatim>\<open>dest_level\<close> has become. In the dataset of one
  ground state level followed by one gamma of 1000 keV without \<^verbatim>\<open>FL\<close>, the level is
  the only candidate: \<^verbatim>\<open>dest_level\<close> is that level, and its \<^verbatim>\<open>decays\<close> and
  \<^verbatim>\<open>populating\<close> lists both hold exactly the gamma.
\<close>

theorem gamma_joins_decays_of_its_level:
  "(GammaRecord_init ext me ds record cmts xr (Some i) = Inr (g, ds') \<and> i < length (levels ds) \<longrightarrow>
    (\<exists>g0 ds1. GammaRecord_fields ext me ds record cmts xr (Some i) = Inr (g0, ds1) \<and>
           decays (levels ds1 ! i) = decays (levels ds ! i) @ [length (records ds)] \<and>
           determine_dest_level ext (length (records ds)) ds1 g0 = Inr (g, ds') \<and>
           decays (levels ds' ! i) = decays (levels ds ! i) @ [length (records ds)])) \<and>
   map_sum id level_graph
     (Dataset_init spec_externals 0
        (dataset_text ['' 60NI    ADOPTED LEVELS'', '' 60NI  L 0'', '' 60NI  G 1000''])) =
   Inr ([(Some 0, [0], [0])], [Some (Some 1000, Some 0, Some 0)])"
  using gamma_joins_decays [of ext me ds _ cmts xr i g ds'] ground_state_dataset
  by blast

theorem gamma_joins_decays_of_its_level_witness:
  "\<exists>g ds'. GammaRecord_init spec_externals 0
              (example_dataset '' 60NI    ADOPTED LEVELS'' [example_level (Some 0) (Some ''X'')])
              [ljust 80 '' 60NI  G 1000''] [] [] (Some 0) = Inr (g, ds') \<and>
            dest_level g = None \<and>
            decays (levels ds' ! 0) = [0]"
proof -
  let ?G = "ljust 80 '' 60NI  G 1000''"
  let ?lv = "example_level (Some 0) (Some ''X'')"
  let ?ds = "example_dataset '' 60NI    ADOPTED LEVELS'' [?lv]"
  let ?ds1 = "?ds\<lparr>levels := (levels ?ds)[0 := add_decay (length (records ?ds)) (levels ?ds ! 0)]\<rparr>"
  have r: "records (example_dataset h ls) = []" for h ls
    by (simp add: example_dataset_def new_dataset_fields)
  have dl: "decays (example_level e off) = []" for e off
    by (simp add: example_level_def)
  obtain g0 where g0: "GammaRecord_fields spec_externals 0 ?ds [?G] [] [] (Some 0) = Inr (g0, ?ds1)"
      "gamma_energy g0 = \<lparr>val = Some 1000, offset = None\<rparr>" "orig_level g0 = Some 0"
      "dest_level g0 = None" "map_of (props g0) ''FL'' = None"
    using GammaRecord_fields_one_line [of ?G spec_externals "\<lparr>val = Some 1000, offset = None\<rparr>"
        blank_quantity blank_quantity blank_quantity blank_quantity 0 ?ds "[]" "[]" "Some 0"]
    by (auto simp: length_ljust spec_externals_def G1000_energy blank_field Quantity_1000
        spec_Quantity_blank)
  have de: "dest_energy spec_externals ?ds1 g0 =
      Inr (Some (Some (0 - 1000 * (1 + 2 * (0.001 * 1000) / (real_of_int 60 * amu spec_externals)))))"
    by (rule dest_energy_from_orig_level [where z = None and i = 0])
       (simp_all add: g0 spec_externals_def nucid_example_dataset az_60NI add_decay_fields
          levels_example_dataset example_level_def example_dataset_def nucid_60NI)
  have ca: "candidates ?ds1 g0 = []"
    by (simp add: candidates_def g0 levels_example_dataset add_decay_fields example_level_def)
  have dd: "determine_dest_level spec_externals (length (records ?ds)) ?ds1 g0 = Inr (g0, ?ds1)"
    using de ca by (rule no_candidate)
  have gi: "GammaRecord_init spec_externals 0 ?ds [?G] [] [] (Some 0) = Inr (g0, ?ds1)"
    by (simp add: GammaRecord_init_def g0(1) dd)
  have i: "0 < length (levels ?ds)"
    by (simp add: levels_example_dataset)
  from gamma_joins_decays_of_its_level [of spec_externals 0 ?ds "[?G]" "[]" "[]" 0 g0 ?ds1] gi i
  have "decays (levels ?ds1 ! 0) = decays (levels ?ds ! 0) @ [length (records ?ds)]"
    by blast
  then have "decays (levels ?ds1 ! 0) = [0]"
    by (simp add: r levels_example_dataset dl)
  with gi g0(4) show ?thesis
    by blast
qed

subsection \<open>The history mapping\<close>

lemma parse_history_foldl: "parse_history segs h = foldl add_history_entry h segs"
proof (induction segs arbitrary: h)
  case Nil
  then show ?case by simp
next
  case (Cons seg segs)
  have "splitn 1 (CHR ''='') seg =
      (if CHR ''='' \<in> set seg
       then [takeWhile (\<lambda>c. c \<noteq> CHR ''='') seg, tl (dropWhile (\<lambda>c. c \<noteq> CHR ''='') seg)]
       else [seg])"
    by (simp add: One_nat_def [symmetric] del: One_nat_def) (simp add: One_nat_def)
  then show ?case
    using Cons by (simp add: add_history_entry_def history_entry_def drop_Suc del: splitn.simps)
qed

lemma parse_dataset_history:
  "parse_dataset ext me ds =
     ebind (parse_lines ext me (butlast (raw ds)) (initial_locals ds)) (\<lambda>st.
     ebind (close_record ext me st) (\<lambda>st'.
     Inr ((self_ds st')\<lparr>history :=
            foldl add_history_entry (history (self_ds st'))
              (butlast (split (CHR ''$'') (loc_history st')))\<rparr>)))"
  by (simp add: parse_dataset_def parse_history_foldl)

lemma case_of_H: "upper ''H'' = ''H''" "upper ''h'' = ''H''" "lower ''H'' = ''h''" "lower ''h'' = ''h''"
  by code_simp+

lemma history_line_step:
  assumes "loc_header st" and "is_history_line l"
  shows "parse_line ext me l st = Inr (st\<lparr>loc_history := loc_history st @ slice 9 80 l @ '' ''\<rparr>)"
proof -
  from assms(2) have len: "7 < length l" and c6: "upper [l ! 6] \<notin> set [''C'', ''D'', ''T'']"
    and c7: "l ! 7 = CHR ''H'' \<or> l ! 7 = CHR ''h''"
    by (simp_all add: is_history_line_def)
  have sig: "record_signature l = Inr False"
    using len c7 by (auto simp: record_signature_def getitem_Inr case_of_H)
  have "header_line me l st = Inr (st\<lparr>loc_history := loc_history st @ slice 9 80 l @ '' ''\<rparr>)"
    using len c6 c7 by (auto simp: header_line_def getitem_Inr sig case_of_H Let_def)
  then show ?thesis
    using assms(1) by (simp add: parse_line_def)
qed

lemma history_lines_loop:
  assumes "loc_header st" and "\<forall>l\<in>set ls. is_history_line l"
  shows "parse_lines ext me ls st =
     Inr (st\<lparr>loc_history := loc_history st @ concat (map (\<lambda>l. slice 9 80 l @ '' '') ls)\<rparr>)"
  using assms
proof (induction ls arbitrary: st)
  case Nil
  then show ?case by simp
next
  case (Cons l ls)
  let ?st = "st\<lparr>loc_history := loc_history st @ slice 9 80 l @ '' ''\<rparr>"
  have s: "parse_line ext me l st = Inr ?st"
    using Cons.prems by (simp add: history_line_step)
  have "parse_lines ext me ls ?st =
     Inr (?st\<lparr>loc_history := loc_history ?st @ concat (map (\<lambda>l. slice 9 80 l @ '' '') ls)\<rparr>)"
    using Cons.prems by (intro Cons.IH) simp_all
  then show ?case
    by (simp add: s)
qed

lemma history_of_header_lines:
  assumes "split (CHR 0x0A) t = h # ls @ [z]" and "\<forall>l\<in>set ls. is_history_line l"
  shows "Dataset_init ext me t =
     Inr ((new_dataset h (ls @ [z]))
          \<lparr>history := history_of_buffer (concat (map (\<lambda>l. slice 9 80 l @ '' '') ls))\<rparr>)"
proof -
  let ?ds = "new_dataset h (ls @ [z])"
  let ?buf = "concat (map (\<lambda>l. slice 9 80 l @ '' '') ls)"
  have pl: "parse_lines ext me ls (initial_locals ?ds) =
      Inr ((initial_locals ?ds)\<lparr>loc_history := ?buf\<rparr>)"
    using history_lines_loop [of "initial_locals ?ds" ls ext me] assms(2)
    by (simp add: initial_locals_fields)
  have "parse_dataset ext me ?ds = Inr (?ds\<lparr>history := history_of_buffer ?buf\<rparr>)"
    by (simp add: parse_dataset_def new_dataset_fields pl close_record_nothing
        initial_locals_fields history_of_buffer_def parse_history_foldl)
  then show ?thesis
    by (simp add: Dataset_init_def assms(1))
qed

lemma history_of_terminated_line: "history_of_buffer (slice 9 80 (ljust 80 '' 60NI  H TYP=B+$MOM=GS$'') @ '' '') =
   [(''TYP'', ''B+''), (''MOM'', ''GS'')]"
  by code_simp

lemma history_of_unterminated_line: "history_of_buffer (slice 9 80 (ljust 80 '' 60NI  H TYP=B+$MOM=GS'') @ '' '') =
   [(''TYP'', ''B+'')]"
  by code_simp

lemma examples_are_history_lines: "is_history_line (ljust 80 '' 60NI  H TYP=B+$MOM=GS$'')"
  "is_history_line (ljust 80 '' 60NI  H TYP=B+$MOM=GS'')"
  by code_simp+

lemma history_example:
  "map_sum id history
     (Dataset_init ext me (dataset_text ['' 60NI    60CO B- DECAY'', '' 60NI  H TYP=B+$MOM=GS$''])) =
   Inr [(''TYP'', ''B+''), (''MOM'', ''GS'')]"
proof -
  have sp: "split (CHR 0x0A) (dataset_text ['' 60NI    60CO B- DECAY'', '' 60NI  H TYP=B+$MOM=GS$''])
     = ljust 80 '' 60NI    60CO B- DECAY'' # [ljust 80 '' 60NI  H TYP=B+$MOM=GS$''] @ [[]]"
    by (simp add: split_dataset_text)
  show ?thesis
    using history_of_header_lines [OF sp, of ext me] by (simp add: examples_are_history_lines history_of_terminated_line)
qed

text \<open>
  C6, as the claim states it, fails: with the header line text \<^verbatim>\<open>TYP=B+$MOM=GS\<close>
  (no \<^verbatim>\<open>$\<close> at the end) the last piece of the buffer is \<^verbatim>\<open>MOM=GS\<close> followed by
  blanks, which is not empty and contains \<^verbatim>\<open>=\<close>; it is discarded all the same and
  the history mapping has no \<^verbatim>\<open>MOM\<close>.
\<close>

theorem last_history_segment_is_discarded:
  "map_sum id history
     (Dataset_init spec_externals 0
        (dataset_text ['' 60NI    60CO B- DECAY'', '' 60NI  H TYP=B+$MOM=GS''])) =
   Inr [(''TYP'', ''B+'')]"
proof -
  have sp: "split (CHR 0x0A) (dataset_text ['' 60NI    60CO B- DECAY'', '' 60NI  H TYP=B+$MOM=GS''])
     = ljust 80 '' 60NI    60CO B- DECAY'' # [ljust 80 '' 60NI  H TYP=B+$MOM=GS''] @ [[]]"
    by (simp add: split_dataset_text)
  show ?thesis
    using history_of_header_lines [OF sp, of spec_externals 0] by (simp add: examples_are_history_lines history_of_unterminated_line)
qed

text \<open>
  C6, amended. After the loop over the body and the closing of the pending record,
  the history mapping is read from the history buffer; when the body of a dataset
  text (all lines after the first but the last) consists of history lines, the
  buffer is their columns 9-80, each followed by a blank. The buffer is split on
  \<^verbatim>\<open>$\<close>, the last segment is discarded whether it is empty or not, every other
  segment that contains \<^verbatim>\<open>=\<close> maps the trimmed text before its first \<^verbatim>\<open>=\<close> to the
  trimmed text after it, and segments without \<^verbatim>\<open>=\<close> are skipped without error. For
  a header line whose text after column 9 is \<^verbatim>\<open>TYP=B+$MOM=GS$\<close> the mapping holds
  \<^verbatim>\<open>TYP\<close> with \<^verbatim>\<open>B+\<close> and \<^verbatim>\<open>MOM\<close> with \<^verbatim>\<open>GS\<close>.
\<close>

theorem history_from_buffer:
  "parse_dataset ext me ds =
     ebind (parse_lines ext me (butlast (raw ds)) (initial_locals ds)) (\<lambda>st.
     ebind (close_record ext me st) (\<lambda>st'.
     Inr ((self_ds st')\<lparr>history :=
            foldl add_history_entry (history (self_ds st'))
              (butlast (split (CHR ''$'') (loc_history st')))\<rparr>))) \<and>
   (split (CHR 0x0A) t = h # ls @ [z] \<and> (\<forall>l\<in>set ls. is_history_line l) \<longrightarrow>
      Dataset_init ext me t =
        Inr ((new_dataset h (ls @ [z]))
             \<lparr>history := history_of_buffer (concat (map (\<lambda>l. slice 9 80 l @ '' '') ls))\<rparr>)) \<and>
   map_sum id history
     (Dataset_init ext me (dataset_text ['' 60NI    60CO B- DECAY'', '' 60NI  H TYP=B+$MOM=GS$''])) =
   Inr [(''TYP'', ''B+''), (''MOM'', ''GS'')]"
  using parse_dataset_history [of ext me ds] history_of_header_lines [of t h ls z ext me]
    history_example [of ext me]
  by blast

lemma history_of_two_lines:
  "history_of_buffer
     (slice 9 80 (ljust 80 '' 60NI  H TYP=B+$MOM=GS$'') @ '' '' @
      slice 9 80 (ljust 80 '' 60NI2 H CIT=ENSDF$CUT=31-DEC-2012'') @ '' '') =
   [(''TYP'', ''B+''), (''MOM'', ''GS''), (''CIT'', ''ENSDF'')]"
  by code_simp

lemma continuation_is_history_line: "is_history_line (ljust 80 '' 60NI2 H CIT=ENSDF$CUT=31-DEC-2012'')"
  by code_simp

theorem history_from_buffer_witness:
  "map_sum id history
     (Dataset_init spec_externals 0
        (dataset_text ['' 60NI    60CO B- DECAY'', '' 60NI  H TYP=B+$MOM=GS$'',
                       '' 60NI2 H CIT=ENSDF$CUT=31-DEC-2012''])) =
   Inr [(''TYP'', ''B+''), (''MOM'', ''GS''), (''CIT'', ''ENSDF'')]"
proof -
  let ?ls = "[ljust 80 '' 60NI  H TYP=B+$MOM=GS$'', ljust 80 '' 60NI2 H CIT=ENSDF$CUT=31-DEC-2012'']"
  have sp: "split (CHR 0x0A)
      (dataset_text ['' 60NI    60CO B- DECAY'', '' 60NI  H TYP=B+$MOM=GS$'',
                     '' 60NI2 H CIT=ENSDF$CUT=31-DEC-2012''])
     = ljust 80 '' 60NI    60CO B- DECAY'' # ?ls @ [[]]"
    by (simp add: split_dataset_text)
  have hl: "\<forall>l\<in>set ?ls. is_history_line l"
    by (simp add: examples_are_history_lines continuation_is_history_line)
  from history_from_buffer [of spec_externals 0 _ _ "ljust 80 '' 60NI    60CO B- DECAY''" ?ls "[]"]
    sp hl
  have "Dataset_init spec_externals 0
        (dataset_text ['' 60NI    60CO B- DECAY'', '' 60NI  H TYP=B+$MOM=GS$'',
                       '' 60NI2 H CIT=ENSDF$CUT=31-DEC-2012'']) =
      Inr ((new_dataset (ljust 80 '' 60NI    60CO B- DECAY'') (?ls @ [[]]))
             \<lparr>history := history_of_buffer (concat (map (\<lambda>l. slice 9 80 l @ '' '') ?ls))\<rparr>)"
    by blast
  then show ?thesis
    using history_of_two_lines by simp
qed

subsection \<open>Records of the header and their back-reference\<close>

lemma header_Q_step:
  assumes "loc_header st" and "getitem l 6 = Inr c6" and "upper c6 \<notin> set [''C'', ''D'', ''T'']"
    and "record_signature l = Inr False" and "getitem l 7 = Inr ''Q''"
  shows "parse_line ext me l st =
     Inr (st\<lparr>self_ds := (self_ds st)\<lparr>qrecords := qrecords (self_ds st) @ [QValueRecord_init me l]\<rparr>\<rparr>)"
proof -
  have u: "upper ''Q'' = ''Q''" by code_simp
  have "header_line me l st =
     Inr (st\<lparr>self_ds := (self_ds st)\<lparr>qrecords := qrecords (self_ds st) @ [QValueRecord_init me l]\<rparr>\<rparr>)"
    using assms(2-5) by (simp add: header_line_def Let_def u)
  then show ?thesis using assms(1) by (simp add: parse_line_def)
qed

lemma header_X_step:
  assumes "loc_header st" and "getitem l 6 = Inr c6" and "upper c6 \<notin> set [''C'', ''D'', ''T'']"
    and "record_signature l = Inr False" and "getitem l 7 = Inr ''X''"
    and "getitem l 8 = Inr c8"
  shows "parse_line ext me l st =
     Inr (st\<lparr>self_ds := (self_ds st)\<lparr>cross_references := cross_references (self_ds st) @
        [\<lparr>xr_dataset = me, dssym = c8, dsid = strip (slice 9 39 l)\<rparr>]\<rparr>\<rparr>)"
proof -
  have "header_line me l st =
     Inr (st\<lparr>self_ds := (self_ds st)\<lparr>cross_references := cross_references (self_ds st) @
        [\<lparr>xr_dataset = me, dssym = c8, dsid = strip (slice 9 39 l)\<rparr>]\<rparr>\<rparr>)"
    using assms(2-6) by (simp add: header_line_def Let_def CrossReferenceRecord_init_def)
  then show ?thesis using assms(1) by (simp add: parse_line_def)
qed

lemma QValueRecord_no_dataset:
  "getattr (QValueRecord_init me l) ''dataset'' = None"
  "map fst (QValueRecord_init me l) =
     [''q_beta_minus'', ''neutron_separation'', ''proton_separation'', ''alpha_decay'', ''q_ref'']"
  by (simp_all add: getattr_def QValueRecord_init_def)

lemma header_line_columns:
  "getitem (ljust 80 '' 60NI  Q -2823.07  3  11387.73 3 9532.3 4 -6292.0 3     2017WA10'') 6 = Inr '' ''"
  "getitem (ljust 80 '' 60NI  Q -2823.07  3  11387.73 3 9532.3 4 -6292.0 3     2017WA10'') 7 = Inr ''Q''"
  "record_signature (ljust 80 '' 60NI  Q -2823.07  3  11387.73 3 9532.3 4 -6292.0 3     2017WA10'') = Inr False"
  "getitem (ljust 80 '' 60NI  XA60CO B- DECAY (1925.28 D)'') 6 = Inr '' ''"
  "getitem (ljust 80 '' 60NI  XA60CO B- DECAY (1925.28 D)'') 7 = Inr ''X''"
  "getitem (ljust 80 '' 60NI  XA60CO B- DECAY (1925.28 D)'') 8 = Inr ''A''"
  "record_signature (ljust 80 '' 60NI  XA60CO B- DECAY (1925.28 D)'') = Inr False"
  "upper '' '' = '' ''"
  by code_simp+

text \<open>
  C9, on the code: in a dataset whose header region holds a cross-reference line and
  a Q-value line, parsed by the Dataset object 5, the CrossReferenceRecord carries
  \<^verbatim>\<open>dataset\<close> = 5, and the QValueRecord has the five attributes its constructor
  assigns and no attribute \<^verbatim>\<open>dataset\<close>.
\<close>

theorem qvalue_record_has_no_dataset_attribute:
  "map_sum id
     (\<lambda>ds. (map xr_dataset (cross_references ds),
             map (\<lambda>q. (map fst q, getattr q ''dataset'')) (qrecords ds)))
     (Dataset_init spec_externals 5
        (dataset_text
           ['' 60NI    ADOPTED LEVELS'',
            '' 60NI  XA60CO B- DECAY (1925.28 D)'',
            '' 60NI  Q -2823.07  3  11387.73 3 9532.3 4 -6292.0 3     2017WA10''])) =
   Inr ([5],
        [([''q_beta_minus'', ''neutron_separation'', ''proton_separation'', ''alpha_decay'',
           ''q_ref''], None)])"
proof -
  let ?H = "ljust 80 '' 60NI    ADOPTED LEVELS''"
  let ?X = "ljust 80 '' 60NI  XA60CO B- DECAY (1925.28 D)''"
  let ?Q = "ljust 80 '' 60NI  Q -2823.07  3  11387.73 3 9532.3 4 -6292.0 3     2017WA10''"
  let ?ds0 = "new_dataset ?H [?X, ?Q, []]"
  let ?st0 = "initial_locals ?ds0"
  let ?xr = "\<lparr>xr_dataset = 5, dssym = ''A'', dsid = strip (slice 9 39 ?X)\<rparr>"
  have sp: "split (CHR 0x0A)
        (dataset_text
           ['' 60NI    ADOPTED LEVELS'',
            '' 60NI  XA60CO B- DECAY (1925.28 D)'',
            '' 60NI  Q -2823.07  3  11387.73 3 9532.3 4 -6292.0 3     2017WA10'']) = [?H, ?X, ?Q, []]"
    by (simp add: split_dataset_text)
  have s1: "parse_line spec_externals 5 ?X ?st0 =
      Inr (?st0\<lparr>self_ds := ?ds0\<lparr>cross_references := [?xr]\<rparr>\<rparr>)"
    using header_X_step [of ?st0 ?X "'' ''" "''A''" spec_externals 5]
    by (simp add: header_line_columns initial_locals_fields new_dataset_fields)
  have s2: "parse_line spec_externals 5 ?Q (?st0\<lparr>self_ds := ?ds0\<lparr>cross_references := [?xr]\<rparr>\<rparr>) =
      Inr (?st0\<lparr>self_ds := ?ds0\<lparr>cross_references := [?xr], qrecords := [QValueRecord_init 5 ?Q]\<rparr>\<rparr>)"
    using header_Q_step [of "?st0\<lparr>self_ds := ?ds0\<lparr>cross_references := [?xr]\<rparr>\<rparr>" ?Q "'' ''" spec_externals 5]
    by (simp add: header_line_columns initial_locals_fields new_dataset_fields)
  have pl: "parse_lines spec_externals 5 [?X, ?Q] ?st0 =
      Inr (?st0\<lparr>self_ds := ?ds0\<lparr>cross_references := [?xr], qrecords := [QValueRecord_init 5 ?Q]\<rparr>\<rparr>)"
    by (simp add: s1 s2)
  have "parse_dataset spec_externals 5 ?ds0 =
     Inr (?ds0\<lparr>cross_references := [?xr], qrecords := [QValueRecord_init 5 ?Q], history := []\<rparr>)"
    by (simp add: parse_dataset_def new_dataset_fields pl close_record_nothing
        initial_locals_fields split_def del: parse_lines.simps)
  then show ?thesis
    by (simp add: Dataset_init_def sp QValueRecord_no_dataset)
qed

subsection \<open>The last line of the dataset text\<close>
























end
